theory Spec2Isabelle
  imports Main "HOL-Library.Word"
begin

section \<open>Values\<close>

text \<open>
  The resolvers of \<^verbatim>\<open>geodb.py\<close> are called with Python values (column names, query
  values, lists of them, flags), read rows of SQLite values and return dictionaries of
  field values. The three kinds of value are kept apart.

  A float is carried as its 64-bit pattern: the module never computes with one, it only
  stores and prints them; the geometry is done by a library.
\<close>

type_synonym pyfloat = "64 word"

text \<open>Arguments of a query: \<^verbatim>\<open>None\<close>, booleans, integers, strings, lists and tuples.\<close>

datatype pyval =
    VNone
  | VBool bool
  | VInt int
  | VStr string
  | VList "pyval list"
  | VTuple "pyval list"

text \<open>What SQLite hands to the row factory: NULL, INTEGER, REAL, TEXT or BLOB.\<close>

datatype sqlval = SNull | SInt int | SReal pyfloat | SText string | SBlob string

text \<open>What a record holds after \<^verbatim>\<open>int(x)\<close>, \<^verbatim>\<open>float(x)\<close>, \<^verbatim>\<open>str(x)\<close> or an assignment of \<^verbatim>\<open>None\<close>.\<close>

datatype field = FNone | FInt int | FFloat pyfloat | FStr string

type_synonym dict = "string \<rightharpoonup> field"

text \<open>The declared type of a column: the values of the \<^verbatim>\<open>types\<close> dictionaries.\<close>

datatype ptype = TInt | TFloat | TStr

datatype error =
    TypeError
  | KeyError
  | IndexError
  | AttributeError
  | OperationalError
  | GeometryError
  | SystemExit int

text \<open>
  The three templates of SQL text that the module formats, with the values interpolated
  into them:
  \<^item> \<^verbatim>\<open>SELECT * FROM {} WHERE {} = "{}"\<close> (table, column, value);
  \<^item> \<^verbatim>\<open>SELECT * FROM {} WHERE "c1" = "v1" op "c2" = "v2" ...\<close> (table, operator, pairs);
  \<^item> \<^verbatim>\<open>SELECT * FROM {} WHERE {} MATCH "{}"\<close> (table, full-text expression).
\<close>

datatype query =
    SelectWhereEq string string pyval
  | SelectWhereAll string pyval "(pyval \<times> pyval) list"
  | SelectMatch string string

text \<open>
  The builtins and libraries the module calls, which are not part of the repository:
  \<^verbatim>\<open>int\<close>, \<^verbatim>\<open>float\<close> and \<^verbatim>\<open>str\<close> on a value read from SQLite (\<open>None\<close> when the
  conversion raises), \<^verbatim>\<open>str\<close>/\<^verbatim>\<open>format\<close> on an argument and on a field,
  \<^verbatim>\<open>str.lower\<close>, \<^verbatim>\<open>net_utils.ip2int\<close> (\<open>None\<close> when it raises), shapely's
  \<^verbatim>\<open>MultiPoint(...).representative_point().coords[0]\<close> (\<open>None\<close> when it raises), and
  \<^verbatim>\<open>bisect.bisect_right(a, x)\<close> on a numpy integer array for an \<open>x\<close> that is not a
  number: numpy decides each comparison (a list is compared element-wise, a string
  raises), so the position found, or the error, is the library's.
\<close>

record pylib =
  py_int :: "sqlval \<Rightarrow> int option"
  py_float :: "sqlval \<Rightarrow> pyfloat option"
  py_str :: "sqlval \<Rightarrow> string"
  str_of :: "pyval \<Rightarrow> string"
  format_field :: "field \<Rightarrow> string"
  lower :: "string \<Rightarrow> string"
  ip2int :: "string \<Rightarrow> int option"
  representative_point :: "(field \<times> field) list \<Rightarrow> (pyfloat \<times> pyfloat) option"
  bisect_other :: "int list \<Rightarrow> pyval \<Rightarrow> error + nat"

subsection \<open>Equality, hashing and truth of arguments\<close>

text \<open>
  Python's \<^verbatim>\<open>==\<close> on these values: \<^verbatim>\<open>True == 1\<close> and \<^verbatim>\<open>False == 0\<close>, sequences
  compare element-wise within their own type, everything else only equals its own kind.
\<close>

fun py_eq :: "pyval \<Rightarrow> pyval \<Rightarrow> bool"
  and py_eqs :: "pyval list \<Rightarrow> pyval list \<Rightarrow> bool" where
  "py_eq VNone VNone = True"
| "py_eq (VBool a) (VBool b) = (a = b)"
| "py_eq (VBool a) (VInt j) = (j = (if a then 1 else 0))"
| "py_eq (VInt i) (VBool b) = (i = (if b then 1 else 0))"
| "py_eq (VInt i) (VInt j) = (i = j)"
| "py_eq (VStr s) (VStr t) = (s = t)"
| "py_eq (VList xs) (VList ys) = py_eqs xs ys"
| "py_eq (VTuple xs) (VTuple ys) = py_eqs xs ys"
| "py_eq _ _ = False"
| "py_eqs [] [] = True"
| "py_eqs (x # xs) (y # ys) = (py_eq x y \<and> py_eqs xs ys)"
| "py_eqs _ _ = False"

text \<open>A list is unhashable, and so is a tuple that holds one.\<close>

fun hashable :: "pyval \<Rightarrow> bool" where
  "hashable (VList xs) = False"
| "hashable (VTuple xs) = (\<forall>x \<in> set xs. hashable x)"
| "hashable _ = True"

fun truthy :: "pyval \<Rightarrow> bool" where
  "truthy VNone = False"
| "truthy (VBool b) = b"
| "truthy (VInt i) = (i \<noteq> 0)"
| "truthy (VStr s) = (s \<noteq> [])"
| "truthy (VList xs) = (xs \<noteq> [])"
| "truthy (VTuple xs) = (xs \<noteq> [])"

section \<open>The resolver object\<close>

datatype variant = CountryLevel_GeoDB | ZIPLevel_GeoDB | ZIP_GeoIPDB

text \<open>
  The attributes of a \<^verbatim>\<open>GeoDatabase_Base\<close> instance that a query reads or writes.
  \<open>kind\<close> is the class of the object. \<open>database\<close> is the SQLite table behind the
  connection: what a query selects (the column names and the rows), \<open>None\<close> when the
  engine rejects the statement. \<open>description\<close> and \<open>pending\<close> are the state of
  \<^verbatim>\<open>self.cursor\<close>: the columns of the last statement and the rows not fetched yet.
  \<open>executed\<close> records every statement passed to \<^verbatim>\<open>cursor.execute\<close>, oldest first.
\<close>

record resolver =
  kind :: variant
  name :: string
  names :: "string list"
  types :: "string \<rightharpoonup> ptype"
  database :: "query \<Rightarrow> (string list \<times> sqlval list list) option"
  ip_int_to_list :: "int list"
  results_cache :: "(pyval \<times> dict) list"
  description :: "string list"
  pending :: "sqlval list list"
  executed :: "query list"

subsection \<open>The result cache\<close>

text \<open>
  \<^verbatim>\<open>self._results_cache\<close> is a Python dictionary: a key is found when it is equal, by
  \<^verbatim>\<open>==\<close>, to a stored one, and storing under an equal key replaces the value.
\<close>

fun cache_get :: "(pyval \<times> dict) list \<Rightarrow> pyval \<Rightarrow> dict option" where
  "cache_get [] k = None"
| "cache_get ((k', v) # rest) k = (if py_eq k' k then Some v else cache_get rest k)"

fun cache_set :: "(pyval \<times> dict) list \<Rightarrow> pyval \<Rightarrow> dict \<Rightarrow> (pyval \<times> dict) list" where
  "cache_set [] k v = [(k, v)]"
| "cache_set ((k', v') # rest) k v =
     (if py_eq k' k then (k', v) # rest else (k', v') # cache_set rest k v)"

text \<open>
  \<^verbatim>\<open>_get_result_from_cache\<close>: \<^verbatim>\<open>self._results_cache.get(key, False)\<close>. \<open>Inr None\<close> is the
  \<^verbatim>\<open>False\<close> of a miss; an unhashable key raises.
\<close>

definition get_result_from_cache :: "resolver \<Rightarrow> pyval \<Rightarrow> error + dict option" where
  "get_result_from_cache r key =
     (if hashable key then Inr (cache_get (results_cache r) key) else Inl TypeError)"

definition add_result_to_cache :: "resolver \<Rightarrow> pyval \<Rightarrow> dict \<Rightarrow> resolver" where
  "add_result_to_cache r key d = r\<lparr>results_cache := cache_set (results_cache r) key d\<rparr>"

text \<open>
  The key of \<^verbatim>\<open>get_geodata\<close>:
  \<^verbatim>\<open>tuple((tuple(arg) if type(arg) is list else arg for arg in args)) + tuple(kwargs.values())\<close>.
\<close>

definition keyargs :: "pyval list \<Rightarrow> pyval list" where
  "keyargs args = map (\<lambda>arg. case arg of VList xs \<Rightarrow> VTuple xs | _ \<Rightarrow> arg) args"

definition cache_key :: "pyval list \<Rightarrow> (string \<times> pyval) list \<Rightarrow> pyval" where
  "cache_key args kwargs = VTuple (keyargs args @ map snd kwargs)"

subsection \<open>Binding \<^verbatim>\<open>*args, **kwargs\<close> to a signature\<close>

text \<open>
  A signature is the list of parameter names with their defaults. The call raises
  TypeError (\<open>None\<close>) on too many positional arguments, an unknown keyword, a parameter
  given twice, or a parameter without default left unbound.
\<close>

fun bind_positional :: "string list \<Rightarrow> pyval list \<Rightarrow> (string \<times> pyval) list option" where
  "bind_positional ps [] = Some []"
| "bind_positional [] (a # as) = None"
| "bind_positional (p # ps) (a # as) = map_option ((#) (p, a)) (bind_positional ps as)"

fun fill_defaults :: "(string \<times> pyval option) list \<Rightarrow> (string \<rightharpoonup> pyval) \<Rightarrow> pyval list option" where
  "fill_defaults [] b = Some []"
| "fill_defaults ((p, dflt) # ps) b =
     (case (case b p of Some v \<Rightarrow> Some v | None \<Rightarrow> dflt) of
        None \<Rightarrow> None
      | Some v \<Rightarrow> map_option ((#) v) (fill_defaults ps b))"

definition bind_args ::
  "(string \<times> pyval option) list \<Rightarrow> pyval list \<Rightarrow> (string \<times> pyval) list \<Rightarrow> pyval list option" where
  "bind_args params args kwargs =
     (case bind_positional (map fst params) args of
        None \<Rightarrow> None
      | Some pos \<Rightarrow>
          if \<exists>k \<in> set (map fst kwargs). k \<notin> set (map fst params) \<or> k \<in> set (map fst pos)
          then None
          else fill_defaults params (map_of (pos @ kwargs)))"

section \<open>Reading rows\<close>

text \<open>
  \<^verbatim>\<open>_dict_factory\<close> is the row factory of the connection. For each column of
  \<^verbatim>\<open>cursor.description\<close>, in order: the column \<^verbatim>\<open>index\<close> is skipped; the declared
  type is looked up (KeyError when the column has none); a value of an \<^verbatim>\<open>int\<close> or
  \<^verbatim>\<open>float\<close> column whose conversion raises is skipped, any other value is stored.
\<close>

fun dict_factory_loop ::
  "pylib \<Rightarrow> (string \<rightharpoonup> ptype) \<Rightarrow> (string \<times> sqlval) list \<Rightarrow> dict \<Rightarrow> error + dict" where
  "dict_factory_loop lib ty [] d = Inr d"
| "dict_factory_loop lib ty ((k, x) # rest) d =
     (if k = ''index'' then dict_factory_loop lib ty rest d
      else case ty k of
        None \<Rightarrow> Inl KeyError
      | Some TInt \<Rightarrow>
          (case py_int lib x of
             None \<Rightarrow> dict_factory_loop lib ty rest d
           | Some i \<Rightarrow> dict_factory_loop lib ty rest (d(k \<mapsto> FInt i)))
      | Some TFloat \<Rightarrow>
          (case py_float lib x of
             None \<Rightarrow> dict_factory_loop lib ty rest d
           | Some f \<Rightarrow> dict_factory_loop lib ty rest (d(k \<mapsto> FFloat f)))
      | Some TStr \<Rightarrow> dict_factory_loop lib ty rest (d(k \<mapsto> FStr (py_str lib x))))"

definition dict_factory ::
  "pylib \<Rightarrow> (string \<rightharpoonup> ptype) \<Rightarrow> string list \<Rightarrow> sqlval list \<Rightarrow> error + dict" where
  "dict_factory lib ty desc row = dict_factory_loop lib ty (zip desc row) Map.empty"

text \<open>
  \<^verbatim>\<open>cursor.execute(query)\<close>: the statement is recorded, the rows it selects become the
  pending rows of the cursor; a rejected statement raises and leaves no rows.
\<close>

definition execute :: "resolver \<Rightarrow> query \<Rightarrow> error option \<times> resolver" where
  "execute r q =
     (case database r q of
        None \<Rightarrow> (Some OperationalError, r\<lparr>pending := [], executed := executed r @ [q]\<rparr>)
      | Some (desc, rows) \<Rightarrow>
          (None, r\<lparr>description := desc, pending := rows, executed := executed r @ [q]\<rparr>))"

text \<open>
  \<^verbatim>\<open>cursor.fetchall()\<close>: every pending row goes through the row factory. When the
  factory raises on a row, that row is consumed and the rows after it stay pending.
\<close>

fun fetch_rows ::
  "pylib \<Rightarrow> (string \<rightharpoonup> ptype) \<Rightarrow> string list \<Rightarrow> sqlval list list
     \<Rightarrow> (error + dict list) \<times> sqlval list list" where
  "fetch_rows lib ty desc [] = (Inr [], [])"
| "fetch_rows lib ty desc (row # rest) =
     (case dict_factory lib ty desc row of
        Inl e \<Rightarrow> (Inl e, rest)
      | Inr d \<Rightarrow>
          (case fetch_rows lib ty desc rest of
             (Inl e, remaining) \<Rightarrow> (Inl e, remaining)
           | (Inr ds, remaining) \<Rightarrow> (Inr (d # ds), remaining)))"

definition fetchall :: "pylib \<Rightarrow> resolver \<Rightarrow> (error + dict list) \<times> resolver" where
  "fetchall lib r =
     (case fetch_rows lib (types r) (description r) (pending r) of
        (res, remaining) \<Rightarrow> (res, r\<lparr>pending := remaining\<rparr>))"

section \<open>Shaping a result\<close>

text \<open>\<^verbatim>\<open>[(r['latitude'], r['longitude']) for r in results]\<close>; \<open>None\<close> is the KeyError.\<close>

fun geo_points :: "dict list \<Rightarrow> (field \<times> field) list option" where
  "geo_points [] = Some []"
| "geo_points (r # rs) =
     (case (r ''latitude'', r ''longitude'') of
        (Some lat, Some lon) \<Rightarrow> map_option ((#) (lat, lon)) (geo_points rs)
      | _ \<Rightarrow> None)"

definition coords_text :: "pylib \<Rightarrow> field \<Rightarrow> field \<Rightarrow> field" where
  "coords_text lib lat lon = FStr (format_field lib lat @ '','' @ format_field lib lon)"

text \<open>
  The lines that the three \<^verbatim>\<open>_get_geodata\<close> share, on a non-empty \<^verbatim>\<open>results\<close>
  (\<open>d0\<close> is \<^verbatim>\<open>results[0]\<close>, \<open>rest\<close> the rows after it):
  \<^verbatim>\<open>
  d = results[0]
  d['location'] = '{},{}'.format(results[0]['latitude'], results[0]['longitude'])
  d['representative_point'] = d['location']
  if len(results) > 1:
      geo_points = [(r['latitude'], r['longitude']) for r in results]
      geo_points = MultiPoint(geo_points)
      repr_lat, repr_lon = geo_points.representative_point().coords[0]
      d['representative_point'] = '{},{}'.format(repr_lat, repr_lon)
  \<close>
\<close>

definition locate :: "pylib \<Rightarrow> dict \<Rightarrow> dict list \<Rightarrow> error + dict" where
  "locate lib d0 rest =
     (case (d0 ''latitude'', d0 ''longitude'') of
        (Some lat, Some lon) \<Rightarrow>
          (let loc = coords_text lib lat lon;
               d = d0(''location'' \<mapsto> loc, ''representative_point'' \<mapsto> loc)
           in if rest = [] then Inr d
              else case geo_points (d # rest) of
                None \<Rightarrow> Inl KeyError
              | Some pts \<Rightarrow>
                  (case representative_point lib pts of
                     None \<Rightarrow> Inl GeometryError
                   | Some (repr_lat, repr_lon) \<Rightarrow>
                       Inr (d(''representative_point'' \<mapsto>
                              coords_text lib (FFloat repr_lat) (FFloat repr_lon)))))
      | _ \<Rightarrow> Inl KeyError)"

text \<open>\<^verbatim>\<open>del d[k]\<close> raises KeyError on a missing key.\<close>

definition del_item :: "dict \<Rightarrow> string \<Rightarrow> error + dict" where
  "del_item d k = (case d k of None \<Rightarrow> Inl KeyError | Some v \<Rightarrow> Inr (d(k := None)))"

text \<open>\<^verbatim>\<open>if k in d: del d[k]\<close>.\<close>

definition discard :: "string \<Rightarrow> dict \<Rightarrow> dict" where
  "discard k d = (if d k \<noteq> None then d(k := None) else d)"

text \<open>The end of \<^verbatim>\<open>CountryLevel_GeoDB._get_geodata\<close>, from \<^verbatim>\<open>d = results[0]\<close> on.\<close>

definition CountryLevel_shape :: "pylib \<Rightarrow> dict \<Rightarrow> dict list \<Rightarrow> error + dict" where
  "CountryLevel_shape lib d0 rest =
     (case locate lib d0 rest of
        Inl e \<Rightarrow> Inl e
      | Inr d \<Rightarrow>
          (case del_item d ''latitude'' of
             Inl e \<Rightarrow> Inl e
           | Inr d1 \<Rightarrow>
               (case del_item d1 ''longitude'' of
                  Inl e \<Rightarrow> Inl e
                | Inr d2 \<Rightarrow> Inr (discard ''index'' d2))))"

text \<open>The end of \<^verbatim>\<open>ZIPLevel_GeoDB._get_geodata\<close>.\<close>

definition ZIPLevel_shape :: "pylib \<Rightarrow> dict \<Rightarrow> dict list \<Rightarrow> error + dict" where
  "ZIPLevel_shape lib d0 rest =
     (case locate lib d0 rest of
        Inl e \<Rightarrow> Inl e
      | Inr d \<Rightarrow>
          (case del_item d ''latitude'' of
             Inl e \<Rightarrow> Inl e
           | Inr d1 \<Rightarrow>
               (case del_item d1 ''longitude'' of
                  Inl e \<Rightarrow> Inl e
                | Inr d2 \<Rightarrow> Inr (d2(''country_name'' \<mapsto> FNone)))))"

text \<open>The end of \<^verbatim>\<open>ZIP_GeoIPDB._get_geodata\<close>.\<close>

definition ZIP_GeoIPDB_shape :: "pylib \<Rightarrow> dict \<Rightarrow> dict list \<Rightarrow> error + dict" where
  "ZIP_GeoIPDB_shape lib d0 rest =
     (case locate lib d0 rest of
        Inl e \<Rightarrow> Inl e
      | Inr d \<Rightarrow>
          Inr (fold discard [''latitude'', ''longitude'', ''ip_from'', ''ip_to'', ''index''] d))"

text \<open>
  \<^verbatim>\<open>results = self.cursor.fetchall()\<close>, \<^verbatim>\<open>if results is None or len(results) == 0: return None\<close>,
  then the shaping of the variant.
\<close>

definition fetch_and_shape ::
  "pylib \<Rightarrow> (pylib \<Rightarrow> dict \<Rightarrow> dict list \<Rightarrow> error + dict) \<Rightarrow> resolver
     \<Rightarrow> (error + dict option) \<times> resolver" where
  "fetch_and_shape lib shape r =
     (case fetchall lib r of
        (Inl e, r1) \<Rightarrow> (Inl e, r1)
      | (Inr [], r1) \<Rightarrow> (Inr None, r1)
      | (Inr (d0 # rest), r1) \<Rightarrow>
          (case shape lib d0 rest of
             Inl e \<Rightarrow> (Inl e, r1)
           | Inr d \<Rightarrow> (Inr (Some d), r1)))"

definition execute_fetch_and_shape ::
  "pylib \<Rightarrow> (pylib \<Rightarrow> dict \<Rightarrow> dict list \<Rightarrow> error + dict) \<Rightarrow> resolver \<Rightarrow> query
     \<Rightarrow> (error + dict option) \<times> resolver" where
  "execute_fetch_and_shape lib shape r q =
     (case execute r q of
        (Some e, r1) \<Rightarrow> (Inl e, r1)
      | (None, r1) \<Rightarrow> fetch_and_shape lib shape r1)"

section \<open>The three lookups\<close>

subsection \<open>\<^verbatim>\<open>CountryLevel_GeoDB._get_geodata(column, value, multi_op='AND')\<close>\<close>

text \<open>
  A string column executes the equality statement, two lists of one length execute the
  combined statement, and anything else executes nothing: the \<^verbatim>\<open>if\<close>/\<^verbatim>\<open>elif\<close> has
  no \<^verbatim>\<open>else\<close>, so \<^verbatim>\<open>fetchall\<close> then reads whatever the cursor still holds.
\<close>

definition CountryLevel_get_geodata ::
  "pylib \<Rightarrow> resolver \<Rightarrow> pyval \<Rightarrow> pyval \<Rightarrow> pyval \<Rightarrow> (error + dict option) \<times> resolver" where
  "CountryLevel_get_geodata lib r column value multi_op =
     (case (case column of
              VStr c \<Rightarrow> execute r (SelectWhereEq (name r) c value)
            | VList cs \<Rightarrow>
                (case value of
                   VList vs \<Rightarrow>
                     if length cs = length vs
                     then execute r (SelectWhereAll (name r) multi_op (zip cs vs))
                     else (None, r)
                 | _ \<Rightarrow> (None, r))
            | _ \<Rightarrow> (None, r)) of
        (Some e, r1) \<Rightarrow> (Inl e, r1)
      | (None, r1) \<Rightarrow> fetch_and_shape lib CountryLevel_shape r1)"

subsection \<open>\<^verbatim>\<open>ZIPLevel_GeoDB._get_geodata(column, value, multi_op='AND')\<close>\<close>

text \<open>\<^verbatim>\<open>sep.join(xs)\<close>.\<close>

fun join :: "string \<Rightarrow> string list \<Rightarrow> string" where
  "join sep [] = []"
| "join sep [x] = x"
| "join sep (x # y # ys) = x @ sep @ join sep (y # ys)"

text \<open>
  \<^verbatim>\<open>["{}:{}".format(c.lower(), v.lower()) for c, v in zip(column, value)]\<close>; only a string
  has \<^verbatim>\<open>lower\<close>, so \<open>None\<close> is the AttributeError.
\<close>

fun match_terms :: "pylib \<Rightarrow> (pyval \<times> pyval) list \<Rightarrow> string list option" where
  "match_terms lib [] = Some []"
| "match_terms lib ((VStr c, VStr v) # rest) =
     map_option ((#) (lower lib c @ '':'' @ lower lib v)) (match_terms lib rest)"
| "match_terms lib (cv # rest) = None"

text \<open>The statement chosen by the first lines; \<open>Inr None\<close> is the \<^verbatim>\<open>else: return None\<close>.\<close>

definition ZIPLevel_query :: "pylib \<Rightarrow> resolver \<Rightarrow> pyval \<Rightarrow> pyval \<Rightarrow> pyval \<Rightarrow> error + query option" where
  "ZIPLevel_query lib r column value multi_op =
     (case (column, value) of
        (VStr c, VStr v) \<Rightarrow>
          if c \<in> set (names r)
          then Inr (Some (SelectMatch (name r) (lower lib c @ '':'' @ lower lib v)))
          else Inr (Some (SelectMatch (name r) (lower lib v)))
      | (VList cs, VList vs) \<Rightarrow>
          if length cs = length vs
          then (case match_terms lib (zip cs vs) of
                  None \<Rightarrow> Inl AttributeError
                | Some terms \<Rightarrow>
                    Inr (Some (SelectMatch (name r)
                                 (join ('' '' @ str_of lib multi_op @ '' '') terms))))
          else Inr None
      | _ \<Rightarrow> Inr None)"

definition ZIPLevel_get_geodata ::
  "pylib \<Rightarrow> resolver \<Rightarrow> pyval \<Rightarrow> pyval \<Rightarrow> pyval \<Rightarrow> (error + dict option) \<times> resolver" where
  "ZIPLevel_get_geodata lib r column value multi_op =
     (case ZIPLevel_query lib r column value multi_op of
        Inl e \<Rightarrow> (Inl e, r)
      | Inr None \<Rightarrow> (Inr None, r)
      | Inr (Some q) \<Rightarrow> execute_fetch_and_shape lib ZIPLevel_shape r q)"

subsection \<open>\<^verbatim>\<open>ZIP_GeoIPDB._get_geodata(column, value, multi_op='AND', str_ip=True)\<close>\<close>

text \<open>
  \<^verbatim>\<open>bisect.bisect_right(a, x)\<close> of the standard library:
  \<^verbatim>\<open>
  lo, hi = 0, len(a)
  while lo < hi:
      mid = (lo + hi) // 2
      if x < a[mid]: hi = mid
      else: lo = mid + 1
  return lo
  \<close>
\<close>

function bisect_right_loop :: "int list \<Rightarrow> int \<Rightarrow> nat \<Rightarrow> nat \<Rightarrow> nat" where
  "bisect_right_loop a x lo hi =
     (if lo < hi
      then (if x < a ! ((lo + hi) div 2)
            then bisect_right_loop a x lo ((lo + hi) div 2)
            else bisect_right_loop a x ((lo + hi) div 2 + 1) hi)
      else lo)"
  by pat_completeness auto
termination
  by (relation "measure (\<lambda>(a, x, lo, hi). hi - lo)") auto

definition bisect_right :: "int list \<Rightarrow> int \<Rightarrow> nat" where
  "bisect_right a x = bisect_right_loop a x 0 (length a)"

text \<open>
  The query value as the number it is compared as against the elements of the integer
  array: an integer, or a boolean (0 or 1). For any other value (\<open>None\<close>) the search
  is the library's \<open>bisect_other\<close>.
\<close>

fun as_number :: "pyval \<Rightarrow> int option" where
  "as_number (VInt i) = Some i"
| "as_number (VBool b) = Some (if b then 1 else 0)"
| "as_number v = None"

text \<open>
  The statement chosen by the first lines. For column \<^verbatim>\<open>'ip'\<close>:
  \<^verbatim>\<open>
  if str_ip:
      try: value = ip2int(str(value))
      except Exception as e: ...; return None
  idx = bisect.bisect_right(self.ip_int_to_list, value)
  ip_to = self.ip_int_to_list[idx]
  query = 'SELECT * FROM {} WHERE ip_to = "{}"'.format(self.name, ip_to)
  \<close>
  The array is a numpy array: reading it at \<open>idx = len\<close> raises IndexError.
\<close>

definition ZIP_GeoIPDB_query ::
  "pylib \<Rightarrow> resolver \<Rightarrow> pyval \<Rightarrow> pyval \<Rightarrow> pyval \<Rightarrow> pyval \<Rightarrow> error + query option" where
  "ZIP_GeoIPDB_query lib r column value multi_op str_ip =
     (if py_eq column (VStr ''ip'') then
        (case (if truthy str_ip then map_option VInt (ip2int lib (str_of lib value))
               else Some value) of
           None \<Rightarrow> Inr None
         | Some value' \<Rightarrow>
             (case (case as_number value' of
                      Some x \<Rightarrow> Inr (bisect_right (ip_int_to_list r) x)
                    | None \<Rightarrow> bisect_other lib (ip_int_to_list r) value') of
                Inl e \<Rightarrow> Inl e
              | Inr idx \<Rightarrow>
                  if idx < length (ip_int_to_list r)
                  then Inr (Some (SelectWhereEq (name r) ''ip_to''
                                    (VInt (ip_int_to_list r ! idx))))
                  else Inl IndexError))
      else case column of
        VStr c \<Rightarrow> Inr (Some (SelectWhereEq (name r) c value))
      | VList cs \<Rightarrow>
          (case value of
             VList vs \<Rightarrow>
               if length cs = length vs
               then Inr (Some (SelectWhereAll (name r) multi_op (zip cs vs)))
               else Inr None
           | _ \<Rightarrow> Inr None)
      | _ \<Rightarrow> Inr None)"

definition ZIP_GeoIPDB_get_geodata ::
  "pylib \<Rightarrow> resolver \<Rightarrow> pyval \<Rightarrow> pyval \<Rightarrow> pyval \<Rightarrow> pyval \<Rightarrow> (error + dict option) \<times> resolver" where
  "ZIP_GeoIPDB_get_geodata lib r column value multi_op str_ip =
     (case ZIP_GeoIPDB_query lib r column value multi_op str_ip of
        Inl e \<Rightarrow> (Inl e, r)
      | Inr None \<Rightarrow> (Inr None, r)
      | Inr (Some q) \<Rightarrow> execute_fetch_and_shape lib ZIP_GeoIPDB_shape r q)"

section \<open>\<^verbatim>\<open>GeoDatabase_Base.get_geodata(*args, **kwargs)\<close>\<close>

text \<open>The parameters of \<^verbatim>\<open>_get_geodata\<close> in each class, with their defaults.\<close>

fun signature :: "variant \<Rightarrow> (string \<times> pyval option) list" where
  "signature CountryLevel_GeoDB =
     [(''column'', None), (''value'', None), (''multi_op'', Some (VStr ''AND''))]"
| "signature ZIPLevel_GeoDB =
     [(''column'', None), (''value'', None), (''multi_op'', Some (VStr ''AND''))]"
| "signature ZIP_GeoIPDB =
     [(''column'', None), (''value'', None), (''multi_op'', Some (VStr ''AND'')),
      (''str_ip'', Some (VBool True))]"

text \<open>\<^verbatim>\<open>self._get_geodata(*args, **kwargs)\<close>: the method of the object's class.\<close>

definition call_get_geodata ::
  "pylib \<Rightarrow> resolver \<Rightarrow> pyval list \<Rightarrow> (string \<times> pyval) list \<Rightarrow> (error + dict option) \<times> resolver" where
  "call_get_geodata lib r args kwargs =
     (case kind r of
        CountryLevel_GeoDB \<Rightarrow>
          (case bind_args (signature CountryLevel_GeoDB) args kwargs of
             Some [column, value, multi_op] \<Rightarrow>
               CountryLevel_get_geodata lib r column value multi_op
           | _ \<Rightarrow> (Inl TypeError, r))
      | ZIPLevel_GeoDB \<Rightarrow>
          (case bind_args (signature ZIPLevel_GeoDB) args kwargs of
             Some [column, value, multi_op] \<Rightarrow>
               ZIPLevel_get_geodata lib r column value multi_op
           | _ \<Rightarrow> (Inl TypeError, r))
      | ZIP_GeoIPDB \<Rightarrow>
          (case bind_args (signature ZIP_GeoIPDB) args kwargs of
             Some [column, value, multi_op, str_ip] \<Rightarrow>
               ZIP_GeoIPDB_get_geodata lib r column value multi_op str_ip
           | _ \<Rightarrow> (Inl TypeError, r)))"

text \<open>
  \<^verbatim>\<open>
  keyargs = tuple((tuple(arg) if type(arg) is list else arg for arg in args))
  key = keyargs + tuple(kwargs.values())
  val = self._get_result_from_cache(key)
  if val is not False:
      return val
  val = self._get_geodata(*args, **kwargs)
  if val is None:
      return None
  self._add_result_to_cache(key, val)
  return val
  \<close>
\<close>

definition get_geodata ::
  "pylib \<Rightarrow> resolver \<Rightarrow> pyval list \<Rightarrow> (string \<times> pyval) list \<Rightarrow> (error + dict option) \<times> resolver" where
  "get_geodata lib r args kwargs =
     (case get_result_from_cache r (cache_key args kwargs) of
        Inl e \<Rightarrow> (Inl e, r)
      | Inr (Some val) \<Rightarrow> (Inr (Some val), r)
      | Inr None \<Rightarrow>
          (case call_get_geodata lib r args kwargs of
             (Inl e, r1) \<Rightarrow> (Inl e, r1)
           | (Inr None, r1) \<Rightarrow> (Inr None, r1)
           | (Inr (Some val), r1) \<Rightarrow>
               (Inr (Some val), add_result_to_cache r1 (cache_key args kwargs) val)))"

section \<open>Construction\<close>

text \<open>The class attributes \<^verbatim>\<open>names\<close> and \<^verbatim>\<open>types\<close>.\<close>

definition CountryLevel_names :: "string list" where
  "CountryLevel_names = [''latitude'', ''longitude'', ''country_code'', ''country_name'']"

definition CountryLevel_types :: "(string \<times> ptype) list" where
  "CountryLevel_types =
     [(''country_code'', TStr), (''country_name'', TStr),
      (''latitude'', TFloat), (''longitude'', TFloat)]"

definition ZIPLevel_names :: "string list" where
  "ZIPLevel_names =
     [''country_code'', ''zip_code'', ''place_name'', ''admin_name1'', ''admin_code1'',
      ''admin_name2'', ''admin_code2'', ''admin_name3'', ''admin_code3'',
      ''latitude'', ''longitude'', ''accuracy'']"

definition ZIPLevel_types :: "(string \<times> ptype) list" where
  "ZIPLevel_types =
     [(''country_code'', TStr), (''zip_code'', TStr), (''place_name'', TStr),
      (''admin_name1'', TStr), (''admin_code1'', TStr), (''admin_name2'', TStr),
      (''admin_code2'', TStr), (''admin_name3'', TStr), (''admin_code3'', TStr),
      (''latitude'', TFloat), (''longitude'', TFloat), (''accuracy'', TFloat)]"

definition ZIP_GeoIPDB_names :: "string list" where
  "ZIP_GeoIPDB_names =
     [''ip_from'', ''ip_to'', ''country_code'', ''country_name'', ''region_name'',
      ''place_name'', ''latitude'', ''longitude'', ''zip_code'']"

definition ZIP_GeoIPDB_types :: "(string \<times> ptype) list" where
  "ZIP_GeoIPDB_types =
     [(''ip_from'', TInt), (''ip_to'', TInt), (''country_code'', TStr),
      (''country_name'', TStr), (''region_name'', TStr), (''place_name'', TStr),
      (''latitude'', TFloat), (''longitude'', TFloat), (''zip_code'', TStr)]"

text \<open>
  \<^verbatim>\<open>ZIPLevel_GeoDB.check_FTS5_support\<close>: the rows of \<^verbatim>\<open>pragma compile_options\<close> are
  one-column rows, given here by their only value.
\<close>

definition check_FTS5_support :: "string list \<Rightarrow> bool" where
  "check_FTS5_support available_pragmas = (''ENABLE_FTS5'' \<in> set available_pragmas)"

text \<open>
  \<^verbatim>\<open>ZIPLevel_GeoDB.__init__\<close>. The environment \<open>env\<close> (files, the SQLite library) is
  only touched by \<^verbatim>\<open>_load_database\<close>, which is given as a function of it: the table it
  opens or builds, or the error it raises. The base constructor stores the attributes,
  loads the database, opens the cursor and starts with an empty cache.
\<close>

definition ZIPLevel_GeoDB_init ::
  "(string \<Rightarrow> string \<Rightarrow> bool \<Rightarrow> 'env
      \<Rightarrow> (error + (query \<Rightarrow> (string list \<times> sqlval list list) option)) \<times> 'env)
   \<Rightarrow> string list \<Rightarrow> string \<Rightarrow> string \<Rightarrow> string \<Rightarrow> string list \<Rightarrow> (string \<times> ptype) list
   \<Rightarrow> bool \<Rightarrow> 'env \<Rightarrow> (error + resolver) \<times> 'env" where
  "ZIPLevel_GeoDB_init load_database available_pragmas name' original_db_path db_path
       names' types' update env =
     (if \<not> check_FTS5_support available_pragmas then (Inl (SystemExit 1), env)
      else case load_database original_db_path db_path update env of
        (Inl e, env1) \<Rightarrow> (Inl e, env1)
      | (Inr db, env1) \<Rightarrow>
          (Inr \<lparr>kind = ZIPLevel_GeoDB, name = name',
                names = (if length names' = 0 then ZIPLevel_names else names'),
                types = map_of (if length types' = 0 then ZIPLevel_types else types'),
                database = db, ip_int_to_list = [], results_cache = [],
                description = [], pending = [], executed = []\<rparr>, env1))"

text \<open>
  A resolver as its constructor leaves it: an empty cache and a cursor that has
  executed nothing.
\<close>

definition fresh :: "resolver \<Rightarrow> bool" where
  "fresh r \<longleftrightarrow> results_cache r = [] \<and> pending r = [] \<and> executed r = []"

text \<open>The states a resolver goes through: any sequence of \<^verbatim>\<open>get_geodata\<close> calls.\<close>

inductive reachable :: "pylib \<Rightarrow> resolver \<Rightarrow> bool" for lib :: pylib where
  reachable_fresh: "fresh r \<Longrightarrow> reachable lib r"
| reachable_call: "reachable lib r \<Longrightarrow> reachable lib (snd (get_geodata lib r args kwargs))"

section \<open>Reference definitions\<close>


text \<open>
  The fields a result must not carry, and the shape of a result: the two synthesized
  fields present, the internal ones absent.
\<close>

fun internal_fields :: "variant \<Rightarrow> string list" where
  "internal_fields ZIP_GeoIPDB = [''latitude'', ''longitude'', ''index'', ''ip_from'', ''ip_to'']"
| "internal_fields v = [''latitude'', ''longitude'', ''index'']"

definition shaped :: "variant \<Rightarrow> dict \<Rightarrow> bool" where
  "shaped v d \<longleftrightarrow>
     d ''location'' \<noteq> None \<and> d ''representative_point'' \<noteq> None \<and>
     (\<forall>k \<in> set (internal_fields v). d k = None)"

text \<open>
  The range table of the Sorted-Range variant, as the SQLite table holds it: the
  columns written by the loader, \<^verbatim>\<open>index\<close> first.
\<close>

definition range_columns :: "string list" where
  "range_columns = ''index'' # ZIP_GeoIPDB_names"

text \<open>
  A small table to stand for the store in the sample inputs below. It answers
  \<^verbatim>\<open>SELECT * FROM t WHERE c = "v"\<close>, for a column \<open>c\<close> of the table, with the rows whose
  column \<open>c\<close> holds the integer or the text \<open>v\<close>, and every other statement with no
  row. It is not a model of SQLite (no type affinity, no quoted value that names a
  column, no combined statement): the samples only send it equality statements on which
  the two agree. The properties proved for every resolver take \<open>database\<close> as it
  comes.
\<close>

fun sql_equal :: "sqlval \<Rightarrow> pyval \<Rightarrow> bool" where
  "sql_equal (SInt i) (VInt j) = (i = j)"
| "sql_equal (SText s) (VStr t) = (s = t)"
| "sql_equal x v = False"

definition column_of :: "string list \<Rightarrow> string \<Rightarrow> sqlval list \<Rightarrow> sqlval" where
  "column_of cols c row = (case map_of (zip cols row) c of Some x \<Rightarrow> x | None \<Rightarrow> SNull)"

fun table_select ::
  "string list \<Rightarrow> sqlval list list \<Rightarrow> query \<Rightarrow> (string list \<times> sqlval list list) option" where
  "table_select cols rows (SelectWhereEq t c v) =
     (if c \<in> set cols then Some (cols, filter (\<lambda>row. sql_equal (column_of cols c row) v) rows)
      else None)"
| "table_select cols rows q = Some (cols, [])"

text \<open>
  The oracle of the specification: a linear scan of the range table for the first row
  whose range \<open>ip_from .. ip_to\<close> holds the query value.
\<close>

definition in_range :: "int \<Rightarrow> sqlval list \<Rightarrow> bool" where
  "in_range x row =
     (case (column_of range_columns ''ip_from'' row, column_of range_columns ''ip_to'' row) of
        (SInt lo, SInt hi) \<Rightarrow> lo \<le> x \<and> x \<le> hi
      | _ \<Rightarrow> False)"

definition linear_scan :: "sqlval list list \<Rightarrow> int \<Rightarrow> sqlval list option" where
  "linear_scan rows x = find (in_range x) rows"

text \<open>
  The Sorted Range Index of a table: the upper bounds of its rows, in order
  (what \<^verbatim>\<open>_load_cache_ip_file\<close> reads from the \<^verbatim>\<open>ip_to\<close> column of the snapshot).
\<close>

fun upper_bound :: "sqlval list \<Rightarrow> int" where
  "upper_bound row = (case column_of range_columns ''ip_to'' row of SInt hi \<Rightarrow> hi | _ \<Rightarrow> 0)"

section \<open>Sample inputs\<close>

text \<open>
  An instance of the library functions to run the definitions on: integers and reals
  convert to themselves, text converts to a number only when it is \<^verbatim>\<open>'7'\<close>, the only
  addresses that \<open>ip2int\<close> accepts are \<^verbatim>\<open>'0.0.0.9'\<close> and \<^verbatim>\<open>'0.0.0.20'\<close>.
\<close>

definition sample_lib :: pylib where
  "sample_lib =
     \<lparr>py_int = (\<lambda>x. case x of SInt i \<Rightarrow> Some i | SText s \<Rightarrow> (if s = ''7'' then Some 7 else None)
                           | _ \<Rightarrow> None),
      py_float = (\<lambda>x. case x of SReal f \<Rightarrow> Some f | SText s \<Rightarrow> (if s = ''7'' then Some 7 else None)
                             | _ \<Rightarrow> None),
      py_str = (\<lambda>x. case x of SText s \<Rightarrow> s | _ \<Rightarrow> ''None''),
      str_of = (\<lambda>v. case v of VStr s \<Rightarrow> s | _ \<Rightarrow> ''?''),
      format_field = (\<lambda>f. case f of FStr s \<Rightarrow> s | FFloat w \<Rightarrow> (if w = 1 then ''1.0'' else ''2.0'')
                                  | _ \<Rightarrow> ''None''),
      lower = (\<lambda>s. s),
      ip2int = (\<lambda>s. if s = ''0.0.0.9'' then Some 9
                     else if s = ''0.0.0.20'' then Some 20 else None),
      representative_point = (\<lambda>pts. None),
      bisect_other = (\<lambda>a v. Inl TypeError)\<rparr>"

text \<open>A range table of two rows, \<open>0 .. 9\<close> and \<open>10 .. 19\<close>, and the resolver over it.\<close>

definition sample_row_low :: "sqlval list" where
  "sample_row_low =
     [SInt 0, SInt 0, SInt 9, SText ''AA'', SText ''ALPHA'', SText ''R1'', SText ''P1'',
      SReal 1, SReal 1, SText ''1000'']"

definition sample_row_high :: "sqlval list" where
  "sample_row_high =
     [SInt 1, SInt 10, SInt 19, SText ''BB'', SText ''BETA'', SText ''R2'', SText ''P2'',
      SReal 2, SReal 2, SText ''2000'']"

definition sample_ranges :: "sqlval list list" where
  "sample_ranges = [sample_row_low, sample_row_high]"

definition sample_geoip :: resolver where
  "sample_geoip =
     \<lparr>kind = ZIP_GeoIPDB, name = ''geoip'', names = ZIP_GeoIPDB_names,
      types = map_of ZIP_GeoIPDB_types,
      database = table_select range_columns sample_ranges,
      ip_int_to_list = map upper_bound sample_ranges, results_cache = [],
      description = [], pending = [], executed = []\<rparr>"

text \<open>A country table of one row, and the resolver over it.\<close>

definition country_columns :: "string list" where
  "country_columns = ''index'' # CountryLevel_names"

definition sample_countries :: "sqlval list list" where
  "sample_countries = [[SInt 0, SReal 1, SReal 2, SText ''MX'', SText ''MEXICO'']]"

definition sample_country :: resolver where
  "sample_country =
     \<lparr>kind = CountryLevel_GeoDB, name = ''countries'', names = CountryLevel_names,
      types = map_of CountryLevel_types,
      database = table_select country_columns sample_countries,
      ip_int_to_list = [], results_cache = [],
      description = [], pending = [], executed = []\<rparr>"

text \<open>The record that the row factory makes of the row of the country table.\<close>

definition sample_mexico :: dict where
  "sample_mexico =
     [''latitude'' \<mapsto> FFloat 1, ''longitude'' \<mapsto> FFloat 2,
      ''country_code'' \<mapsto> FStr ''MX'', ''country_name'' \<mapsto> FStr ''MEXICO'']"







text \<open>A range table whose only row has NULL for a longitude.\<close>

definition sample_row_nowhere :: "sqlval list" where
  "sample_row_nowhere =
     [SInt 0, SInt 0, SInt 9, SText ''AA'', SText ''ALPHA'', SText ''R1'', SText ''P1'',
      SReal 1, SNull, SText ''1000'']"

definition sample_geoip_nowhere :: resolver where
  "sample_geoip_nowhere =
     \<lparr>kind = ZIP_GeoIPDB, name = ''geoip'', names = ZIP_GeoIPDB_names,
      types = map_of ZIP_GeoIPDB_types,
      database = table_select range_columns [sample_row_nowhere],
      ip_int_to_list = [9], results_cache = [],
      description = [], pending = [], executed = []\<rparr>"

section \<open>Auxiliary notions\<close>

text \<open>The shaping at the end of \<^verbatim>\<open>_get_geodata\<close> in each class.\<close>

fun shape_of :: "variant \<Rightarrow> pylib \<Rightarrow> dict \<Rightarrow> dict list \<Rightarrow> error + dict" where
  "shape_of CountryLevel_GeoDB = CountryLevel_shape"
| "shape_of ZIPLevel_GeoDB = ZIPLevel_shape"
| "shape_of ZIP_GeoIPDB = ZIP_GeoIPDB_shape"

text \<open>
  Two states of one resolver: the attributes that no lookup writes, and the cache,
  which only \<^verbatim>\<open>get_geodata\<close> itself writes.
\<close>

definition same_object :: "resolver \<Rightarrow> resolver \<Rightarrow> bool" where
  "same_object r r' \<longleftrightarrow>
     kind r' = kind r \<and> name r' = name r \<and> names r' = names r \<and> types r' = types r \<and>
     database r' = database r \<and> ip_int_to_list r' = ip_int_to_list r \<and>
     results_cache r' = results_cache r"

text \<open>Every record in the cache has the shape of a result of the resolver's class.\<close>

definition cache_shaped :: "resolver \<Rightarrow> bool" where
  "cache_shaped r \<longleftrightarrow> (\<forall>(k, d) \<in> set (results_cache r). shaped (kind r) d)"

text \<open>
  A normal form for \<^verbatim>\<open>==\<close>: two arguments are equal in Python exactly when their
  normal forms are the same term (a boolean is the integer 0 or 1).
\<close>

fun canon :: "pyval \<Rightarrow> pyval" where
  "canon (VBool b) = VInt (if b then 1 else 0)"
| "canon (VList xs) = VList (map canon xs)"
| "canon (VTuple xs) = VTuple (map canon xs)"
| "canon v = v"

section \<open>Properties of the cache\<close>

lemma py_eq_canon:
  shows "py_eq a b = (canon a = canon b)"
    and "py_eqs as bs = (map canon as = map canon bs)"
  by (induction a b and as bs rule: py_eq_py_eqs.induct) auto

lemma cache_get_set_other:
  "\<not> py_eq k1 k2 \<Longrightarrow> cache_get (cache_set c k1 d) k2 = cache_get c k2"
  by (induction c) (auto simp: py_eq_canon)

lemma single_and_list_keys_differ:
  "\<not> py_eq (cache_key [VStr c, v] kwargs) (cache_key [VList [VStr c], VList [v]] kwargs')"
  by (simp add: cache_key_def keyargs_def)

text \<open>
  C4, as stated, fails. The single-field call \<^verbatim>\<open>get_geodata('country_code', 'MX')\<close> has
  the key \<^verbatim>\<open>('country_code', 'MX')\<close>, the list call
  \<^verbatim>\<open>get_geodata(['country_code'], ['MX'])\<close> the key \<^verbatim>\<open>(('country_code',), ('MX',))\<close>:
  the keys are not equal, and a result stored under the first is not found under the
  second.
\<close>

theorem query_key_styles_counterexample:
  "\<not> py_eq (cache_key [VStr ''country_code'', VStr ''MX''] [])
           (cache_key [VList [VStr ''country_code''], VList [VStr ''MX'']] []) \<and>
   cache_get (cache_set [] (cache_key [VStr ''country_code'', VStr ''MX''] []) Map.empty)
     (cache_key [VList [VStr ''country_code''], VList [VStr ''MX'']] []) = None"
  by (simp add: cache_key_def keyargs_def)

text \<open>
  C4, amended: for every column name \<open>c\<close> and value \<open>v\<close>, the query in single-field
  style \<open>(c, v)\<close> and the query in list style \<open>([c], [v])\<close> normalize to different
  Query Keys, \<open>(c, v)\<close> and \<open>((c,), (v,))\<close>, and occupy different Result Cache slots:
  storing a result under the one leaves what is found under the other as it was.
\<close>

theorem query_key_styles_distinct:
  "\<not> py_eq (cache_key [VStr c, v] kwargs) (cache_key [VList [VStr c], VList [v]] kwargs) \<and>
   cache_get (cache_set cache (cache_key [VStr c, v] kwargs) d)
     (cache_key [VList [VStr c], VList [v]] kwargs)
   = cache_get cache (cache_key [VList [VStr c], VList [v]] kwargs) \<and>
   cache_get (cache_set cache (cache_key [VList [VStr c], VList [v]] kwargs) d)
     (cache_key [VStr c, v] kwargs)
   = cache_get cache (cache_key [VStr c, v] kwargs)"
proof -
  have a: "\<not> py_eq (cache_key [VStr c, v] kwargs) (cache_key [VList [VStr c], VList [v]] kwargs)"
    by (rule single_and_list_keys_differ)
  have b: "\<not> py_eq (cache_key [VList [VStr c], VList [v]] kwargs) (cache_key [VStr c, v] kwargs)"
    by (simp add: cache_key_def keyargs_def)
  show ?thesis
    using a b by (simp add: cache_get_set_other)
qed

section \<open>Construction of the Full-Text variant\<close>

text \<open>
  C6: when the compile options of the SQLite library do not list \<^verbatim>\<open>ENABLE_FTS5\<close>, the
  constructor of \<^verbatim>\<open>ZIPLevel_GeoDB\<close> stops with \<^verbatim>\<open>sys.exit(1)\<close> before the base
  constructor runs: no database is loaded or opened (the environment is untouched) and
  no resolver, of any match semantics, is returned.
\<close>

theorem fts5_missing_halts_construction:
  "\<not> check_FTS5_support available_pragmas \<Longrightarrow>
   ZIPLevel_GeoDB_init load_database available_pragmas name' original_db_path db_path
     names' types' update env = (Inl (SystemExit 1), env)"
  by (simp add: ZIPLevel_GeoDB_init_def)

theorem fts5_missing_halts_construction_witness:
  "\<not> check_FTS5_support [''ENABLE_FTS3'', ''THREADSAFE=1''] \<and>
   ZIPLevel_GeoDB_init (\<lambda>p q u (env::nat). (Inr (table_select [] []), Suc env))
     [''ENABLE_FTS3'', ''THREADSAFE=1''] ''geoinfo'' ''zip.sql.gz'' ''zip.db'' [] [] False 0
     = (Inl (SystemExit 1), 0)"
  using fts5_missing_halts_construction
    [of "[''ENABLE_FTS3'', ''THREADSAFE=1'']"
        "\<lambda>p q u (env::nat). (Inr (table_select [] []), Suc env)"
        "''geoinfo''" "''zip.sql.gz''" "''zip.db''" "[]" "[]" False 0]
  by (simp add: check_FTS5_support_def)

section \<open>What a lookup leaves alone\<close>

lemma same_object_refl: "same_object r r"
  by (simp add: same_object_def)

lemma same_object_trans: "same_object r r1 \<Longrightarrow> same_object r1 r2 \<Longrightarrow> same_object r r2"
  by (simp add: same_object_def)

lemma execute_same: "execute r q = (e, r1) \<Longrightarrow> same_object r r1"
  by (auto simp: execute_def same_object_def split: option.splits)

lemma execute_executed: "execute r q = (e, r1) \<Longrightarrow> executed r1 = executed r @ [q]"
  by (auto simp: execute_def split: option.splits)

lemma fetchall_same: "fetchall lib r = (res, r1) \<Longrightarrow> same_object r r1 \<and> executed r1 = executed r"
  by (auto simp: fetchall_def same_object_def split: prod.splits)

lemma fetch_rows_done: "fetch_rows lib ty desc rows = (Inr ds, remaining) \<Longrightarrow> remaining = []"
  by (induction rows arbitrary: ds) (auto split: sum.splits prod.splits)

lemma fetchall_done: "fetchall lib r = (Inr ds, r1) \<Longrightarrow> pending r1 = []"
  by (auto simp: fetchall_def split: prod.splits dest: fetch_rows_done)

lemma fetch_and_shape_same:
  "fetch_and_shape lib shape r = (res, r1) \<Longrightarrow> same_object r r1 \<and> executed r1 = executed r"
  by (auto simp: fetch_and_shape_def split: prod.splits sum.splits list.splits dest: fetchall_same)

lemma fetch_and_shape_done:
  "fetch_and_shape lib shape r = (Inr res, r1) \<Longrightarrow> pending r1 = []"
  by (auto simp: fetch_and_shape_def split: prod.splits sum.splits list.splits dest: fetchall_done)

lemma execute_fetch_and_shape_same:
  "execute_fetch_and_shape lib shape r q = (res, r1) \<Longrightarrow> same_object r r1"
  by (auto simp: execute_fetch_and_shape_def split: prod.splits option.splits
      dest!: execute_same fetch_and_shape_same intro: same_object_trans)

lemma execute_fetch_and_shape_done:
  "execute_fetch_and_shape lib shape r q = (Inr res, r1) \<Longrightarrow> pending r1 = []"
  by (auto simp: execute_fetch_and_shape_def split: prod.splits option.splits
      dest: fetch_and_shape_done)

lemma CountryLevel_get_geodata_same:
  "CountryLevel_get_geodata lib r column value multi_op = (res, r1) \<Longrightarrow> same_object r r1"
  by (auto simp: CountryLevel_get_geodata_def same_object_refl
      split: prod.splits option.splits pyval.splits if_splits
      dest!: execute_same fetch_and_shape_same intro: same_object_trans)

lemma ZIPLevel_get_geodata_same:
  "ZIPLevel_get_geodata lib r column value multi_op = (res, r1) \<Longrightarrow> same_object r r1"
  by (auto simp: ZIPLevel_get_geodata_def same_object_refl
      split: sum.splits option.splits dest: execute_fetch_and_shape_same)

lemma ZIP_GeoIPDB_get_geodata_same:
  "ZIP_GeoIPDB_get_geodata lib r column value multi_op str_ip = (res, r1) \<Longrightarrow> same_object r r1"
  by (auto simp: ZIP_GeoIPDB_get_geodata_def same_object_refl
      split: sum.splits option.splits dest: execute_fetch_and_shape_same)

lemma call_get_geodata_same:
  "call_get_geodata lib r args kwargs = (res, r1) \<Longrightarrow> same_object r r1"
  by (auto simp: call_get_geodata_def same_object_refl
      split: variant.splits option.splits list.splits
      dest: CountryLevel_get_geodata_same ZIPLevel_get_geodata_same ZIP_GeoIPDB_get_geodata_same)


section \<open>Dispatch and the sample resolvers\<close>

lemma call_get_geodata_kind:
  "kind r = CountryLevel_GeoDB \<Longrightarrow>
   bind_args (signature CountryLevel_GeoDB) args kwargs = Some [c, v, m] \<Longrightarrow>
   call_get_geodata lib r args kwargs = CountryLevel_get_geodata lib r c v m"
  "kind r = ZIPLevel_GeoDB \<Longrightarrow>
   bind_args (signature ZIPLevel_GeoDB) args kwargs = Some [c, v, m] \<Longrightarrow>
   call_get_geodata lib r args kwargs = ZIPLevel_get_geodata lib r c v m"
  "kind r = ZIP_GeoIPDB \<Longrightarrow>
   bind_args (signature ZIP_GeoIPDB) args kwargs = Some [c, v, m, s] \<Longrightarrow>
   call_get_geodata lib r args kwargs = ZIP_GeoIPDB_get_geodata lib r c v m s"
  by (simp_all add: call_get_geodata_def)

lemma bind_args_two:
  "bind_args (signature CountryLevel_GeoDB) [c, v] [] = Some [c, v, VStr ''AND'']"
  "bind_args (signature ZIPLevel_GeoDB) [c, v] [] = Some [c, v, VStr ''AND'']"
  "bind_args (signature ZIP_GeoIPDB) [c, v] [] = Some [c, v, VStr ''AND'', VBool True]"
  by (simp_all add: bind_args_def)

lemma sample_country_simps:
  "kind sample_country = CountryLevel_GeoDB" "name sample_country = ''countries''"
  "results_cache sample_country = []" "pending sample_country = []"
  "executed sample_country = []" "description sample_country = []"
  "types sample_country = map_of CountryLevel_types"
  "database sample_country = table_select country_columns sample_countries"
  by (simp_all add: sample_country_def)

lemma select_XX:
  "table_select country_columns sample_countries
     (SelectWhereEq ''countries'' ''country_code'' (VStr ''XX'')) = Some (country_columns, [])"
  by (simp add: country_columns_def CountryLevel_names_def sample_countries_def column_of_def)

lemma call_XX:
  "call_get_geodata sample_lib sample_country [VStr ''country_code'', VStr ''XX''] [] =
     (Inr None, sample_country\<lparr>description := country_columns, pending := [],
        executed := [SelectWhereEq ''countries'' ''country_code'' (VStr ''XX'')]\<rparr>)"
  by (simp add: call_get_geodata_kind(1) [OF _ bind_args_two(1)] sample_country_simps
      CountryLevel_get_geodata_def execute_def select_XX fetch_and_shape_def fetchall_def
      del: table_select.simps)

lemma get_XX:
  "get_geodata sample_lib sample_country [VStr ''country_code'', VStr ''XX''] [] =
     (Inr None, sample_country\<lparr>description := country_columns, pending := [],
        executed := [SelectWhereEq ''countries'' ''country_code'' (VStr ''XX'')]\<rparr>)"
  by (simp add: get_geodata_def get_result_from_cache_def cache_key_def keyargs_def
      sample_country_simps call_XX)

lemma get_XX_again:
  "get_geodata sample_lib (sample_country\<lparr>description := country_columns, pending := [],
        executed := [SelectWhereEq ''countries'' ''country_code'' (VStr ''XX'')]\<rparr>)
     [VStr ''country_code'', VStr ''XX''] [] =
     (Inr None, sample_country\<lparr>description := country_columns, pending := [],
        executed := [SelectWhereEq ''countries'' ''country_code'' (VStr ''XX''),
                     SelectWhereEq ''countries'' ''country_code'' (VStr ''XX'')]\<rparr>)"
  by (simp add: get_geodata_def get_result_from_cache_def cache_key_def keyargs_def
      sample_country_simps call_get_geodata_kind(1) [OF _ bind_args_two(1)]
      CountryLevel_get_geodata_def execute_def select_XX fetch_and_shape_def fetchall_def
      del: table_select.simps)

section \<open>Queries without a match\<close>

text \<open>
  C3, as stated, fails. On the sample country table the query
  \<^verbatim>\<open>get_geodata('country_code', 'XX')\<close> matches no row and returns \<^verbatim>\<open>None\<close>, the cache is
  still empty afterwards, and the second identical query executes the statement on the
  database again.
\<close>

theorem no_match_cached_counterexample:
  "fst (get_geodata sample_lib sample_country [VStr ''country_code'', VStr ''XX''] []) = Inr None \<and>
   results_cache (snd (get_geodata sample_lib sample_country
                         [VStr ''country_code'', VStr ''XX''] [])) = [] \<and>
   executed (snd (get_geodata sample_lib
                    (snd (get_geodata sample_lib sample_country
                            [VStr ''country_code'', VStr ''XX''] []))
                    [VStr ''country_code'', VStr ''XX''] [])) =
     [SelectWhereEq ''countries'' ''country_code'' (VStr ''XX''),
      SelectWhereEq ''countries'' ''country_code'' (VStr ''XX'')]"
  by (simp add: get_XX get_XX_again sample_country_simps)

text \<open>
  C3, amended: for every query that misses the cache and whose lookup returns no
  record, \<^verbatim>\<open>get_geodata\<close> returns NotFound and stores nothing (\<^verbatim>\<open>if val is None: return None\<close>
  comes before the cache is written): the Result Cache is left as it was, so a
  second identical query misses the cache again and is answered by the Backing
  Store's lookup again.
\<close>

theorem no_match_is_not_cached:
  assumes "get_result_from_cache r (cache_key args kwargs) = Inr None"
    and "call_get_geodata lib r args kwargs = (Inr None, r1)"
  shows "get_geodata lib r args kwargs = (Inr None, r1) \<and>
         results_cache r1 = results_cache r \<and>
         get_result_from_cache r1 (cache_key args kwargs) = Inr None \<and>
         fst (get_geodata lib r1 args kwargs) = fst (call_get_geodata lib r1 args kwargs)"
proof -
  have same: "results_cache r1 = results_cache r"
    using call_get_geodata_same [OF assms(2)] by (simp add: same_object_def)
  have miss: "get_result_from_cache r1 (cache_key args kwargs) = Inr None"
    using assms(1) same by (simp add: get_result_from_cache_def split: if_splits)
  have first: "get_geodata lib r args kwargs = (Inr None, r1)"
    using assms by (simp add: get_geodata_def)
  have again: "fst (get_geodata lib r1 args kwargs) = fst (call_get_geodata lib r1 args kwargs)"
    using miss by (simp add: get_geodata_def split: prod.splits sum.splits option.splits)
  from first same miss again show ?thesis by simp
qed

text \<open>The amended C3 on the sample country table.\<close>

theorem no_match_is_not_cached_witness:
  "get_result_from_cache sample_country (cache_key [VStr ''country_code'', VStr ''XX''] []) = Inr None \<and>
   call_get_geodata sample_lib sample_country [VStr ''country_code'', VStr ''XX''] [] =
     (Inr None, sample_country\<lparr>description := country_columns, pending := [],
        executed := [SelectWhereEq ''countries'' ''country_code'' (VStr ''XX'')]\<rparr>) \<and>
   get_geodata sample_lib sample_country [VStr ''country_code'', VStr ''XX''] [] =
     (Inr None, sample_country\<lparr>description := country_columns, pending := [],
        executed := [SelectWhereEq ''countries'' ''country_code'' (VStr ''XX'')]\<rparr>)"
proof -
  have a: "get_result_from_cache sample_country
             (cache_key [VStr ''country_code'', VStr ''XX''] []) = Inr None"
    by (simp add: get_result_from_cache_def cache_key_def keyargs_def sample_country_simps)
  show ?thesis
    using a call_XX no_match_is_not_cached [OF a call_XX] by simp
qed

section \<open>An address that does not convert\<close>

text \<open>
  C10: on the Sorted-Range variant, for a call that binds \<^verbatim>\<open>column\<close> to \<^verbatim>\<open>'ip'\<close> and
  \<^verbatim>\<open>str_ip\<close> to a true value, when \<^verbatim>\<open>ip2int(str(value))\<close> raises and the key of the call is
  not in the cache, \<^verbatim>\<open>get_geodata\<close> returns \<^verbatim>\<open>None\<close> and the resolver is unchanged: the
  exception is not propagated, no statement is executed and no entry is added to the
  Result Cache.
\<close>

theorem unconvertible_ip_returns_none:
  assumes "kind r = ZIP_GeoIPDB"
    and "bind_args (signature ZIP_GeoIPDB) args kwargs = Some [column, value, multi_op, str_ip]"
    and "py_eq column (VStr ''ip'')" and "truthy str_ip"
    and "ip2int lib (str_of lib value) = None"
    and "get_result_from_cache r (cache_key args kwargs) = Inr None"
  shows "get_geodata lib r args kwargs = (Inr None, r)"
proof -
  have "ZIP_GeoIPDB_query lib r column value multi_op str_ip = Inr None"
    using assms(3,4,5) by (simp add: ZIP_GeoIPDB_query_def)
  then have "ZIP_GeoIPDB_get_geodata lib r column value multi_op str_ip = (Inr None, r)"
    by (simp add: ZIP_GeoIPDB_get_geodata_def)
  then have "call_get_geodata lib r args kwargs = (Inr None, r)"
    using assms(1,2) by (simp add: call_get_geodata_kind(3))
  then show ?thesis
    using assms(6) by (simp add: get_geodata_def)
qed


section \<open>The binary search\<close>

lemma bisect_right_loop_all_le:
  "\<forall>b \<in> set a. b \<le> x \<Longrightarrow> lo \<le> hi \<Longrightarrow> hi \<le> length a \<Longrightarrow> bisect_right_loop a x lo hi = hi"
proof (induction a x lo hi rule: bisect_right_loop.induct)
  case (1 a x lo hi)
  show ?case
  proof (cases "lo < hi")
    case True
    let ?mid = "(lo + hi) div 2"
    from True "1.prems" have m: "?mid < length a" by simp
    then have "a ! ?mid \<le> x" using "1.prems"(1) by simp
    then have nlt: "\<not> x < a ! ?mid" by simp
    have "bisect_right_loop a x (?mid + 1) hi = hi"
      using "1.IH"(2) [OF True nlt "1.prems"(1)] True "1.prems" by simp
    with True nlt show ?thesis by (subst bisect_right_loop.simps) simp
  next
    case False
    with "1.prems" show ?thesis by (subst bisect_right_loop.simps) simp
  qed
qed

lemma bisect_right_past_end: "\<forall>b \<in> set a. b < x \<Longrightarrow> bisect_right a x = length a"
  unfolding bisect_right_def by (rule bisect_right_loop_all_le) auto

text \<open>
  On a sorted array the search returns the position of the leftmost element strictly
  greater than the value: everything before it is at most the value.
\<close>

lemma bisect_right_loop_spec:
  assumes "sorted a" "lo \<le> hi" "hi \<le> length a"
    "\<forall>i<lo. a ! i \<le> x" "\<forall>i. hi \<le> i \<and> i < length a \<longrightarrow> x < a ! i"
  shows "lo \<le> bisect_right_loop a x lo hi \<and> bisect_right_loop a x lo hi \<le> hi \<and>
         (\<forall>i < bisect_right_loop a x lo hi. a ! i \<le> x) \<and>
         (\<forall>i. bisect_right_loop a x lo hi \<le> i \<and> i < length a \<longrightarrow> x < a ! i)"
  using assms
proof (induction a x lo hi rule: bisect_right_loop.induct)
  case (1 a x lo hi)
  show ?case
  proof (cases "lo < hi")
    case False
    with "1.prems" show ?thesis by (subst (1 2 3 4) bisect_right_loop.simps) auto
  next
    case True
    let ?mid = "(lo + hi) div 2"
    from True "1.prems" have m: "lo \<le> ?mid" "?mid < hi" "?mid < length a" by auto
    show ?thesis
    proof (cases "x < a ! ?mid")
      case lt: True
      have up: "\<forall>i. ?mid \<le> i \<and> i < length a \<longrightarrow> x < a ! i"
      proof (intro allI impI)
        fix i assume "?mid \<le> i \<and> i < length a"
        then have "a ! ?mid \<le> a ! i" using \<open>sorted a\<close> by (simp add: sorted_iff_nth_mono)
        with lt show "x < a ! i" by simp
      qed
      have e: "bisect_right_loop a x lo hi = bisect_right_loop a x lo ?mid"
        using True lt by (subst bisect_right_loop.simps) simp
      have "?mid \<le> length a" using m by simp
      from "1.IH"(1) [OF True lt "1.prems"(1) m(1) this "1.prems"(4) up]
      show ?thesis unfolding e using m by auto
    next
      case ge: False
      have low: "\<forall>i<?mid + 1. a ! i \<le> x"
      proof (intro allI impI)
        fix i assume "i < ?mid + 1"
        then have "a ! i \<le> a ! ?mid" using \<open>sorted a\<close> m by (simp add: sorted_iff_nth_mono)
        with ge show "a ! i \<le> x" by simp
      qed
      have e: "bisect_right_loop a x lo hi = bisect_right_loop a x (?mid + 1) hi"
        using True ge by (subst bisect_right_loop.simps) simp
      have "?mid + 1 \<le> hi" using m by simp
      from "1.IH"(2) [OF True ge "1.prems"(1) this "1.prems"(3) low "1.prems"(5)]
      show ?thesis unfolding e using m by auto
    qed
  qed
qed

lemma bisect_right_spec:
  assumes "sorted a"
  shows "bisect_right a x \<le> length a \<and> (\<forall>i < bisect_right a x. a ! i \<le> x) \<and>
         (\<forall>i. bisect_right a x \<le> i \<and> i < length a \<longrightarrow> x < a ! i)"
  using bisect_right_loop_spec [OF assms, of 0 "length a" x] by (simp add: bisect_right_def)

text \<open>
  So a value below an upper bound, and not below the bounds before it, selects that
  bound; a value equal to an upper bound selects the next one (with the later bounds
  larger), and none when the bound is the last.
\<close>

lemma bisect_right_interior:
  assumes "sorted a" "i < length a" "x < a ! i" "\<forall>j<i. a ! j \<le> x"
  shows "bisect_right a x = i"
proof -
  from bisect_right_spec [OF assms(1), of x]
  have le: "\<forall>j < bisect_right a x. a ! j \<le> x"
    and gt: "\<forall>j. bisect_right a x \<le> j \<and> j < length a \<longrightarrow> x < a ! j"
    and len: "bisect_right a x \<le> length a" by simp_all
  have "\<not> i < bisect_right a x"
    using le assms(3) by force
  moreover have "\<not> bisect_right a x < i"
  proof
    assume b: "bisect_right a x < i"
    with assms(2) gt have "x < a ! bisect_right a x" by simp
    moreover from b assms(4) have "a ! bisect_right a x \<le> x" by simp
    ultimately show False by simp
  qed
  ultimately show ?thesis by simp
qed

lemma bisect_right_at_bound:
  assumes "sorted a" "i < length a" "\<forall>j. i < j \<and> j < length a \<longrightarrow> a ! i < a ! j"
  shows "bisect_right a (a ! i) = i + 1"
proof -
  let ?r = "bisect_right a (a ! i)"
  from bisect_right_spec [OF assms(1), of "a ! i"]
  have le: "\<forall>j < ?r. a ! j \<le> a ! i"
    and gt: "\<forall>j. ?r \<le> j \<and> j < length a \<longrightarrow> a ! i < a ! j"
    and len: "?r \<le> length a" by simp_all
  have "i < ?r"
  proof (rule ccontr)
    assume "\<not> i < ?r"
    then have "?r \<le> i" by simp
    with gt assms(2) have "a ! i < a ! i" by blast
    then show False by simp
  qed
  moreover have "\<not> i + 1 < ?r"
  proof
    assume b: "i + 1 < ?r"
    with len have "i + 1 < length a" by simp
    with assms(3) have "a ! i < a ! (i + 1)" by simp
    moreover from b le have "a ! (i + 1) \<le> a ! i" by simp
    ultimately show False by simp
  qed
  ultimately show ?thesis by simp
qed

text \<open>
  A value above every upper bound: the search returns the length of the array, the
  read at that position raises, and nothing catches the IndexError.
\<close>

lemma query_above_every_bound_raises:
  assumes "py_eq column (VStr ''ip'')" "truthy str_ip"
    and "ip2int lib (str_of lib value) = Some x"
    and "\<forall>b \<in> set (ip_int_to_list r). b < x"
  shows "ZIP_GeoIPDB_get_geodata lib r column value multi_op str_ip = (Inl IndexError, r)"
proof -
  have "bisect_right (ip_int_to_list r) x = length (ip_int_to_list r)"
    using assms(4) by (rule bisect_right_past_end)
  then have "ZIP_GeoIPDB_query lib r column value multi_op str_ip = Inl IndexError"
    using assms(1,2,3) by (simp add: ZIP_GeoIPDB_query_def)
  then show ?thesis
    by (simp add: ZIP_GeoIPDB_get_geodata_def)
qed

section \<open>The range lookup on the sample table\<close>

lemma sample_geoip_simps:
  "kind sample_geoip = ZIP_GeoIPDB" "name sample_geoip = ''geoip''"
  "ip_int_to_list sample_geoip = [9, 19]" "results_cache sample_geoip = []"
  "pending sample_geoip = []" "executed sample_geoip = []"
  "description sample_geoip = []"
  "types sample_geoip = map_of ZIP_GeoIPDB_types"
  "database sample_geoip = table_select range_columns sample_ranges"
  by (simp_all add: sample_geoip_def sample_ranges_def sample_row_low_def sample_row_high_def
        column_of_def range_columns_def ZIP_GeoIPDB_names_def)

lemma sample_lib_simps:
  "ip2int sample_lib ''0.0.0.9'' = Some 9" "ip2int sample_lib ''0.0.0.20'' = Some 20"
  "ip2int sample_lib ''localhost'' = None"
  "str_of sample_lib (VStr s) = s"
  by (simp_all add: sample_lib_def)

lemma bisect_samples: "bisect_right [9, 19] 20 = 2" "bisect_right [9, 19] 9 = 1"
  by (simp_all add: bisect_right_def)

text \<open>C10 on the sample range table, with the value \<^verbatim>\<open>'localhost'\<close>.\<close>

theorem unconvertible_ip_returns_none_witness:
  "kind sample_geoip = ZIP_GeoIPDB \<and>
   bind_args (signature ZIP_GeoIPDB) [VStr ''ip'', VStr ''localhost''] [] =
     Some [VStr ''ip'', VStr ''localhost'', VStr ''AND'', VBool True] \<and>
   py_eq (VStr ''ip'') (VStr ''ip'') \<and> truthy (VBool True) \<and>
   ip2int sample_lib (str_of sample_lib (VStr ''localhost'')) = None \<and>
   get_result_from_cache sample_geoip (cache_key [VStr ''ip'', VStr ''localhost''] []) = Inr None \<and>
   get_geodata sample_lib sample_geoip [VStr ''ip'', VStr ''localhost''] [] =
     (Inr None, sample_geoip)"
proof -
  have k: "kind sample_geoip = ZIP_GeoIPDB"
    by (rule sample_geoip_simps)
  have b: "bind_args (signature ZIP_GeoIPDB) [VStr ''ip'', VStr ''localhost''] [] =
      Some [VStr ''ip'', VStr ''localhost'', VStr ''AND'', VBool True]"
    by (rule bind_args_two)
  have c: "py_eq (VStr ''ip'') (VStr ''ip'')" and t: "truthy (VBool True)"
    by simp_all
  have i: "ip2int sample_lib (str_of sample_lib (VStr ''localhost'')) = None"
    by (simp add: sample_lib_simps)
  have m: "get_result_from_cache sample_geoip
      (cache_key [VStr ''ip'', VStr ''localhost''] []) = Inr None"
    by (simp add: get_result_from_cache_def cache_key_def keyargs_def sample_geoip_simps)
  show ?thesis
    using k b c t i m unconvertible_ip_returns_none [OF k b c t i m] by simp
qed

lemma query_20:
  "ZIP_GeoIPDB_query sample_lib sample_geoip (VStr ''ip'') (VStr ''0.0.0.20'') (VStr ''AND'')
     (VBool True) = Inl IndexError"
  by (simp add: ZIP_GeoIPDB_query_def sample_geoip_simps sample_lib_simps bisect_samples)

text \<open>
  C1 at the sample range table (upper bounds 9 and 19), query \<^verbatim>\<open>'0.0.0.20'\<close>: the
  search position is 2, the length of the array, and
  \<^verbatim>\<open>get_geodata('ip', '0.0.0.20')\<close> ends in the IndexError of
  \<^verbatim>\<open>self.ip_int_to_list[idx]\<close> instead of returning \<^verbatim>\<open>None\<close>.
\<close>

theorem query_above_every_bound_index_error:
  "ip_int_to_list sample_geoip = [9, 19] \<and>
   bisect_right (ip_int_to_list sample_geoip) 20 = length (ip_int_to_list sample_geoip) \<and>
   get_geodata sample_lib sample_geoip [VStr ''ip'', VStr ''0.0.0.20''] [] =
     (Inl IndexError, sample_geoip)"
  by (simp add: get_geodata_def get_result_from_cache_def cache_key_def keyargs_def
      call_get_geodata_kind(3) [OF _ bind_args_two(3)] ZIP_GeoIPDB_get_geodata_def query_20
      sample_geoip_simps bisect_samples)

lemma query_9:
  "ZIP_GeoIPDB_query sample_lib sample_geoip (VStr ''ip'') (VStr ''0.0.0.9'') (VStr ''AND'')
     (VBool True) = Inr (Some (SelectWhereEq ''geoip'' ''ip_to'' (VInt 19)))"
  by (simp add: ZIP_GeoIPDB_query_def sample_geoip_simps sample_lib_simps bisect_samples)

lemma select_19:
  "table_select range_columns sample_ranges (SelectWhereEq ''geoip'' ''ip_to'' (VInt 19)) =
     Some (range_columns, [sample_row_high])"
  by (simp add: sample_ranges_def sample_row_low_def sample_row_high_def column_of_def
      range_columns_def ZIP_GeoIPDB_names_def)

lemma row_19:
  "\<exists>d. dict_factory sample_lib (map_of ZIP_GeoIPDB_types) range_columns sample_row_high = Inr d
     \<and> d ''country_code'' = Some (FStr ''BB'')
     \<and> d ''latitude'' = Some (FFloat 2) \<and> d ''longitude'' = Some (FFloat 2)"
  by (simp add: dict_factory_def sample_row_high_def range_columns_def ZIP_GeoIPDB_names_def
      ZIP_GeoIPDB_types_def sample_lib_def)

lemma locate_single:
  "d0 ''latitude'' = Some lat \<Longrightarrow> d0 ''longitude'' = Some lon \<Longrightarrow>
   locate lib d0 [] = Inr (d0(''location'' \<mapsto> coords_text lib lat lon,
                              ''representative_point'' \<mapsto> coords_text lib lat lon))"
  by (simp add: locate_def Let_def)


lemma one_row:
  assumes "database r q = Some (desc, [row])" "dict_factory lib (types r) desc row = Inr d0"
  shows "execute_fetch_and_shape lib shape r q =
     (case shape lib d0 [] of
        Inl e \<Rightarrow> (Inl e, r\<lparr>description := desc, pending := [], executed := executed r @ [q]\<rparr>)
      | Inr d \<Rightarrow> (Inr (Some d), r\<lparr>description := desc, pending := [], executed := executed r @ [q]\<rparr>))"
  using assms
  by (simp add: execute_fetch_and_shape_def execute_def fetch_and_shape_def fetchall_def
      split: sum.splits)

lemma call_9:
  assumes d0: "dict_factory sample_lib (map_of ZIP_GeoIPDB_types) range_columns
        sample_row_high = Inr d0" 
      "d0 ''latitude'' = Some (FFloat 2)" "d0 ''longitude'' = Some (FFloat 2)"
  shows "call_get_geodata sample_lib sample_geoip [VStr ''ip'', VStr ''0.0.0.9''] [] =
     (Inr (Some (fold discard [''latitude'', ''longitude'', ''ip_from'', ''ip_to'', ''index'']
        (d0(''location'' \<mapsto> coords_text sample_lib (FFloat 2) (FFloat 2),
            ''representative_point'' \<mapsto> coords_text sample_lib (FFloat 2) (FFloat 2))))),
      sample_geoip\<lparr>description := range_columns, pending := [],
                 executed := [SelectWhereEq ''geoip'' ''ip_to'' (VInt 19)]\<rparr>)"
proof -
  have db: "database sample_geoip (SelectWhereEq ''geoip'' ''ip_to'' (VInt 19)) =
      Some (range_columns, [sample_row_high])"
    by (simp only: sample_geoip_simps select_19)
  have ty: "dict_factory sample_lib (types sample_geoip) range_columns sample_row_high = Inr d0"
    by (simp only: sample_geoip_simps d0)
  have sh: "ZIP_GeoIPDB_shape sample_lib d0 [] = Inr (fold discard [''latitude'', ''longitude'', ''ip_from'', ''ip_to'', ''index'']
        (d0(''location'' \<mapsto> coords_text sample_lib (FFloat 2) (FFloat 2),
            ''representative_point'' \<mapsto> coords_text sample_lib (FFloat 2) (FFloat 2))))"
    by (simp only: ZIP_GeoIPDB_shape_def locate_single [OF d0(2,3)] sum.case)
  show ?thesis
    by (simp only: call_get_geodata_kind(3) [OF sample_geoip_simps(1) bind_args_two(3)]
        ZIP_GeoIPDB_get_geodata_def query_9 one_row [OF db ty] sh sum.case option.case
        sample_geoip_simps append_Nil)
qed

lemma discard_other: "k \<noteq> k' \<Longrightarrow> discard k d k' = d k'"
  by (simp add: discard_def)

lemma discard_same: "discard k d k = None"
  by (simp add: discard_def)

text \<open>
  C2 at the sample range table (ranges \<open>0 .. 9\<close> and \<open>10 .. 19\<close>), query \<^verbatim>\<open>'0.0.0.9'\<close>,
  the upper bound of the first range. The linear scan finds the first row. The lookup
  searches with \<^verbatim>\<open>bisect_right\<close>, which steps over the equal bound: it selects the
  bound 19, the statement on \<^verbatim>\<open>ip_to = "19"\<close> selects the second row, and the record
  returned is that of the range \<open>10 .. 19\<close>, which does not hold 9.
\<close>

theorem boundary_query_resolves_to_next_range:
  "linear_scan sample_ranges 9 = Some sample_row_low \<and>
   ZIP_GeoIPDB_query sample_lib sample_geoip (VStr ''ip'') (VStr ''0.0.0.9'') (VStr ''AND'')
     (VBool True) = Inr (Some (SelectWhereEq ''geoip'' ''ip_to'' (VInt 19))) \<and>
   database sample_geoip (SelectWhereEq ''geoip'' ''ip_to'' (VInt 19)) =
     Some (range_columns, [sample_row_high]) \<and>
   (case fst (get_geodata sample_lib sample_geoip [VStr ''ip'', VStr ''0.0.0.9''] []) of
      Inr (Some d) \<Rightarrow> d ''country_code''
    | _ \<Rightarrow> None) = Some (FStr ''BB'')"
proof -
  obtain d0 where d0: "dict_factory sample_lib (map_of ZIP_GeoIPDB_types) range_columns
        sample_row_high = Inr d0" "d0 ''country_code'' = Some (FStr ''BB'')"
      "d0 ''latitude'' = Some (FFloat 2)" "d0 ''longitude'' = Some (FFloat 2)"
    using row_19 by blast
  have scan: "linear_scan sample_ranges 9 = Some sample_row_low"
    by (simp add: linear_scan_def sample_ranges_def in_range_def column_of_def
        range_columns_def ZIP_GeoIPDB_names_def sample_row_low_def)
  have db: "database sample_geoip (SelectWhereEq ''geoip'' ''ip_to'' (VInt 19)) =
      Some (range_columns, [sample_row_high])"
    by (simp only: sample_geoip_simps select_19)
  have miss: "get_result_from_cache sample_geoip (cache_key [VStr ''ip'', VStr ''0.0.0.9''] [])
      = Inr None"
    by (simp add: get_result_from_cache_def cache_key_def keyargs_def sample_geoip_simps)
  have "(case fst (get_geodata sample_lib sample_geoip [VStr ''ip'', VStr ''0.0.0.9''] []) of
      Inr (Some d) \<Rightarrow> d ''country_code''
    | _ \<Rightarrow> None) = Some (FStr ''BB'')"
    by (simp add: get_geodata_def miss call_9 [OF d0(1,3,4)] discard_other d0(2))
  with scan query_9 db show ?thesis by simp
qed

section \<open>Queries of invalid shape\<close>

lemma fill_defaults_length: "fill_defaults params b = Some bound \<Longrightarrow> length bound = length params"
  by (induction params b arbitrary: bound rule: fill_defaults.induct)
     (auto split: option.splits)

lemma bind_args_length: "bind_args params args kwargs = Some bound \<Longrightarrow> length bound = length params"
  by (auto simp: bind_args_def split: option.splits if_splits dest: fill_defaults_length)

lemma exhausted_cursor: "pending r = [] \<Longrightarrow> r\<lparr>pending := []\<rparr> = r"
  by (cases r) simp

lemma fetch_and_shape_exhausted: "pending r = [] \<Longrightarrow> fetch_and_shape lib shape r = (Inr None, r)"
  by (simp add: fetch_and_shape_def fetchall_def exhausted_cursor)

lemma CountryLevel_mismatch:
  "length cs \<noteq> length vs \<Longrightarrow> pending r = [] \<Longrightarrow>
   CountryLevel_get_geodata lib r (VList cs) (VList vs) multi_op = (Inr None, r)"
  by (simp add: CountryLevel_get_geodata_def fetch_and_shape_exhausted)

lemma ZIPLevel_mismatch:
  "length cs \<noteq> length vs \<Longrightarrow>
   ZIPLevel_get_geodata lib r (VList cs) (VList vs) multi_op = (Inr None, r)"
  by (simp add: ZIPLevel_get_geodata_def ZIPLevel_query_def)

lemma ZIP_GeoIPDB_mismatch:
  "length cs \<noteq> length vs \<Longrightarrow>
   ZIP_GeoIPDB_get_geodata lib r (VList cs) (VList vs) multi_op str_ip = (Inr None, r)"
  by (simp add: ZIP_GeoIPDB_get_geodata_def ZIP_GeoIPDB_query_def)

text \<open>
  With a cursor that holds no row, every variant answers lists of different lengths
  with \<^verbatim>\<open>None\<close> and executes nothing. \<^verbatim>\<open>ZIPLevel_GeoDB\<close> and \<^verbatim>\<open>ZIP_GeoIPDB\<close> reach
  their \<^verbatim>\<open>else: return None\<close> whatever the cursor holds. \<^verbatim>\<open>CountryLevel_GeoDB\<close> has no
  such branch: it executes nothing and calls \<^verbatim>\<open>fetchall\<close> on the cursor as it is.
\<close>

lemma mismatched_lists_on_exhausted_cursor:
  assumes "bind_args (signature (kind r)) args kwargs = Some (VList cs # VList vs # rest)"
    and "length cs \<noteq> length vs" and "pending r = []"
  shows "call_get_geodata lib r args kwargs = (Inr None, r)"
proof (cases "kind r")
  case CountryLevel_GeoDB
  with assms(1) have b: "bind_args (signature CountryLevel_GeoDB) args kwargs =
      Some (VList cs # VList vs # rest)" by simp
  from bind_args_length [OF b] obtain m where "rest = [m]"
    by (cases rest) auto
  with b CountryLevel_GeoDB assms(2,3) show ?thesis
    by (simp add: call_get_geodata_def CountryLevel_mismatch)
next
  case ZIPLevel_GeoDB
  with assms(1) have b: "bind_args (signature ZIPLevel_GeoDB) args kwargs =
      Some (VList cs # VList vs # rest)" by simp
  from bind_args_length [OF b] obtain m where "rest = [m]"
    by (cases rest) auto
  with b ZIPLevel_GeoDB assms(2) show ?thesis
    by (simp add: call_get_geodata_def ZIPLevel_mismatch)
next
  case ZIP_GeoIPDB
  with assms(1) have b: "bind_args (signature ZIP_GeoIPDB) args kwargs =
      Some (VList cs # VList vs # rest)" by simp
  from bind_args_length [OF b] obtain m s where "rest = [m, s]"
    by (cases rest; cases "tl rest") auto
  with b ZIP_GeoIPDB assms(2) show ?thesis
    by (simp add: call_get_geodata_def ZIP_GeoIPDB_mismatch)
qed

lemma call_get_geodata_done:
  assumes "pending r = []" "call_get_geodata lib r args kwargs = (Inr res, r1)"
  shows "pending r1 = []"
  using assms
  by (auto simp: call_get_geodata_def CountryLevel_get_geodata_def ZIPLevel_get_geodata_def
      ZIP_GeoIPDB_get_geodata_def
      split: variant.splits option.splits list.splits prod.splits pyval.splits if_splits sum.splits
      dest: fetch_and_shape_done execute_fetch_and_shape_done)

lemma get_geodata_done:
  assumes "pending r = []" "get_geodata lib r args kwargs = (Inr res, r1)"
  shows "pending r1 = []"
  using assms
  by (auto simp: get_geodata_def add_result_to_cache_def
      split: sum.splits option.splits prod.splits dest: call_get_geodata_done)


section \<open>The shape of a result\<close>

lemma locate_cases:
  assumes "locate lib d0 rest = Inr d"
  obtains lat lon loc where "d0 ''latitude'' = Some lat" "d0 ''longitude'' = Some lon"
    "d = d0(''location'' \<mapsto> coords_text lib lat lon, ''representative_point'' \<mapsto> loc)"
proof (cases "d0 ''latitude''")
  case None
  with assms show ?thesis by (simp add: locate_def)
next
  case lat: (Some lat)
  show ?thesis
  proof (cases "d0 ''longitude''")
    case None
    with assms lat show ?thesis by (simp add: locate_def)
  next
    case lon: (Some lon)
    let ?loc = "coords_text lib lat lon"
    let ?d = "d0(''location'' \<mapsto> ?loc, ''representative_point'' \<mapsto> ?loc)"
    show ?thesis
    proof (cases "rest = []")
      case True
      with assms lat lon have "d = ?d" by (simp add: locate_def Let_def)
      with lat lon that show ?thesis by blast
    next
      case False
      with assms lat lon have "\<exists>p. d = d0(''location'' \<mapsto> ?loc, ''representative_point'' \<mapsto> p)"
        by (auto simp: locate_def Let_def split: option.splits prod.splits)
      with lat lon that show ?thesis by blast
    qed
  qed
qed


lemma discard_eq: "discard k d = d(k := None)"
  by (auto simp: discard_def)

lemma CountryLevel_shape_shaped:
  assumes "CountryLevel_shape lib d0 rest = Inr d"
  shows "shaped CountryLevel_GeoDB d"
proof -
  from assms obtain dl where l: "locate lib d0 rest = Inr dl"
    by (auto simp: CountryLevel_shape_def split: sum.splits)
  from locate_cases [OF l] obtain lat lon loc where
    f: "d0 ''latitude'' = Some lat" "d0 ''longitude'' = Some lon"
    and dl: "dl = d0(''location'' \<mapsto> coords_text lib lat lon, ''representative_point'' \<mapsto> loc)"
    by blast
  have "d = discard ''index'' (dl(''latitude'' := None, ''longitude'' := None))"
    using assms l f by (simp add: CountryLevel_shape_def del_item_def dl)
  then show ?thesis
    by (simp add: shaped_def discard_eq dl)
qed

lemma ZIPLevel_shape_shaped:
  assumes "d0 ''index'' = None" "ZIPLevel_shape lib d0 rest = Inr d"
  shows "shaped ZIPLevel_GeoDB d"
proof -
  from assms(2) obtain dl where l: "locate lib d0 rest = Inr dl"
    by (auto simp: ZIPLevel_shape_def split: sum.splits)
  from locate_cases [OF l] obtain lat lon loc where
    f: "d0 ''latitude'' = Some lat" "d0 ''longitude'' = Some lon"
    and dl: "dl = d0(''location'' \<mapsto> coords_text lib lat lon, ''representative_point'' \<mapsto> loc)"
    by blast
  have "d = (dl(''latitude'' := None, ''longitude'' := None))(''country_name'' \<mapsto> FNone)"
    using assms(2) l f by (simp add: ZIPLevel_shape_def del_item_def dl)
  then show ?thesis
    using assms(1) by (simp add: shaped_def dl)
qed

lemma ZIP_GeoIPDB_shape_shaped:
  assumes "ZIP_GeoIPDB_shape lib d0 rest = Inr d"
  shows "shaped ZIP_GeoIPDB d"
proof -
  from assms obtain dl where l: "locate lib d0 rest = Inr dl"
    by (auto simp: ZIP_GeoIPDB_shape_def split: sum.splits)
  from locate_cases [OF l] obtain lat lon loc where
    dl: "dl = d0(''location'' \<mapsto> coords_text lib lat lon, ''representative_point'' \<mapsto> loc)"
    by blast
  have "d = fold discard [''latitude'', ''longitude'', ''ip_from'', ''ip_to'', ''index''] dl"
    using assms l by (simp add: ZIP_GeoIPDB_shape_def)
  then show ?thesis
    by (simp add: shaped_def discard_eq dl)
qed


lemma dict_factory_loop_index:
  "dict_factory_loop lib ty kvs d = Inr d' \<Longrightarrow> d ''index'' = None \<Longrightarrow> d' ''index'' = None"
  by (induction lib ty kvs d rule: dict_factory_loop.induct)
     (auto split: if_splits option.splits ptype.splits)

lemma dict_factory_index: "dict_factory lib ty desc row = Inr d \<Longrightarrow> d ''index'' = None"
  by (auto simp: dict_factory_def dest: dict_factory_loop_index)

lemma fetch_rows_index:
  "fetch_rows lib ty desc rows = (Inr ds, remaining) \<Longrightarrow> \<forall>d \<in> set ds. d ''index'' = None"
  by (induction rows arbitrary: ds)
     (auto split: sum.splits prod.splits dest: dict_factory_index)

lemma fetchall_index:
  "fetchall lib r = (Inr ds, r1) \<Longrightarrow> \<forall>d \<in> set ds. d ''index'' = None"
  by (auto simp: fetchall_def split: prod.splits dest: fetch_rows_index)

lemma fetch_and_shape_cases:
  assumes "fetch_and_shape lib shape r = (Inr (Some d), r1)"
  obtains d0 rest where "fetchall lib r = (Inr (d0 # rest), r1)" "shape lib d0 rest = Inr d"
  using assms
  by (auto simp: fetch_and_shape_def split: prod.splits sum.splits list.splits)

lemma fetch_and_shape_CountryLevel:
  assumes "fetch_and_shape lib CountryLevel_shape r = (Inr (Some d), r1)"
  shows "shaped CountryLevel_GeoDB d"
  using assms by (elim fetch_and_shape_cases) (rule CountryLevel_shape_shaped)

lemma fetch_and_shape_ZIPLevel:
  assumes "fetch_and_shape lib ZIPLevel_shape r = (Inr (Some d), r1)"
  shows "shaped ZIPLevel_GeoDB d"
proof -
  from assms obtain d0 rest where f: "fetchall lib r = (Inr (d0 # rest), r1)"
    and s: "ZIPLevel_shape lib d0 rest = Inr d"
    by (rule fetch_and_shape_cases)
  from fetchall_index [OF f] have "d0 ''index'' = None" by simp
  then show ?thesis using s by (rule ZIPLevel_shape_shaped)
qed

lemma fetch_and_shape_ZIP_GeoIPDB:
  assumes "fetch_and_shape lib ZIP_GeoIPDB_shape r = (Inr (Some d), r1)"
  shows "shaped ZIP_GeoIPDB d"
  using assms by (elim fetch_and_shape_cases) (rule ZIP_GeoIPDB_shape_shaped)

lemma execute_fetch_and_shape_cases:
  assumes "execute_fetch_and_shape lib shape r q = (Inr (Some d), r1)"
  obtains r0 where "fetch_and_shape lib shape r0 = (Inr (Some d), r1)"
  using assms
  by (auto simp: execute_fetch_and_shape_def split: prod.splits option.splits)

lemma CountryLevel_get_geodata_shaped:
  assumes "CountryLevel_get_geodata lib r column value multi_op = (Inr (Some d), r1)"
  shows "shaped CountryLevel_GeoDB d"
proof -
  from assms obtain r0 where "fetch_and_shape lib CountryLevel_shape r0 = (Inr (Some d), r1)"
    by (auto simp: CountryLevel_get_geodata_def split: prod.splits option.splits)
  then show ?thesis by (rule fetch_and_shape_CountryLevel)
qed

lemma ZIPLevel_get_geodata_shaped:
  assumes "ZIPLevel_get_geodata lib r column value multi_op = (Inr (Some d), r1)"
  shows "shaped ZIPLevel_GeoDB d"
proof -
  from assms obtain q where "execute_fetch_and_shape lib ZIPLevel_shape r q = (Inr (Some d), r1)"
    by (auto simp: ZIPLevel_get_geodata_def split: sum.splits option.splits)
  then show ?thesis
    by (elim execute_fetch_and_shape_cases) (rule fetch_and_shape_ZIPLevel)
qed

lemma ZIP_GeoIPDB_get_geodata_shaped:
  assumes "ZIP_GeoIPDB_get_geodata lib r column value multi_op str_ip = (Inr (Some d), r1)"
  shows "shaped ZIP_GeoIPDB d"
proof -
  from assms obtain q where
    "execute_fetch_and_shape lib ZIP_GeoIPDB_shape r q = (Inr (Some d), r1)"
    by (auto simp: ZIP_GeoIPDB_get_geodata_def split: sum.splits option.splits)
  then show ?thesis
    by (elim execute_fetch_and_shape_cases) (rule fetch_and_shape_ZIP_GeoIPDB)
qed

lemma call_get_geodata_shaped:
  assumes "call_get_geodata lib r args kwargs = (Inr (Some d), r1)"
  shows "shaped (kind r) d"
proof (cases "kind r")
  case CountryLevel_GeoDB
  with assms obtain c v m where
    "CountryLevel_get_geodata lib r c v m = (Inr (Some d), r1)"
    by (auto simp: call_get_geodata_def split: option.splits list.splits)
  with CountryLevel_GeoDB show ?thesis by (simp add: CountryLevel_get_geodata_shaped)
next
  case ZIPLevel_GeoDB
  with assms obtain c v m where
    "ZIPLevel_get_geodata lib r c v m = (Inr (Some d), r1)"
    by (auto simp: call_get_geodata_def split: option.splits list.splits)
  with ZIPLevel_GeoDB show ?thesis by (simp add: ZIPLevel_get_geodata_shaped)
next
  case ZIP_GeoIPDB
  with assms obtain c v m s where
    "ZIP_GeoIPDB_get_geodata lib r c v m s = (Inr (Some d), r1)"
    by (auto simp: call_get_geodata_def split: option.splits list.splits)
  with ZIP_GeoIPDB show ?thesis by (simp add: ZIP_GeoIPDB_get_geodata_shaped)
qed

lemma cache_get_member: "cache_get c k = Some d \<Longrightarrow> \<exists>k'. (k', d) \<in> set c"
  by (induction c) (auto split: if_splits)

lemma cache_set_member:
  "(k', d') \<in> set (cache_set c k d) \<Longrightarrow> d' = d \<or> (k', d') \<in> set c"
  by (induction c) (auto split: if_splits)

lemma get_geodata_kind: "kind (snd (get_geodata lib r args kwargs)) = kind r"
  by (auto simp: get_geodata_def add_result_to_cache_def same_object_def
      split: sum.splits option.splits prod.splits dest!: call_get_geodata_same)

lemma get_geodata_cache_shaped:
  assumes "cache_shaped r"
  shows "cache_shaped (snd (get_geodata lib r args kwargs))"
proof (cases "get_result_from_cache r (cache_key args kwargs)")
  case (Inl e)
  with assms show ?thesis by (simp add: get_geodata_def)
next
  case (Inr hit)
  show ?thesis
  proof (cases hit)
    case (Some val)
    with Inr assms show ?thesis by (simp add: get_geodata_def)
  next
    case None
    obtain res r1 where c: "call_get_geodata lib r args kwargs = (res, r1)"
      by (cases "call_get_geodata lib r args kwargs")
    from call_get_geodata_same [OF c] have same: "kind r1 = kind r"
      "results_cache r1 = results_cache r" by (simp_all add: same_object_def)
    with assms have r1: "cache_shaped r1" by (simp add: cache_shaped_def)
    show ?thesis
    proof (cases res)
      case (Inl e)
      with Inr None c r1 show ?thesis by (simp add: get_geodata_def)
    next
      case res: (Inr found)
      show ?thesis
      proof (cases found)
        case None': None
        with Inr None c r1 res show ?thesis by (simp add: get_geodata_def)
      next
        case (Some val)
        with c res have "shaped (kind r) val"
          using call_get_geodata_shaped by blast
        with r1 same have "cache_shaped (add_result_to_cache r1 (cache_key args kwargs) val)"
          by (auto simp: cache_shaped_def add_result_to_cache_def dest: cache_set_member)
        with Inr None c res Some show ?thesis by (simp add: get_geodata_def)
      qed
    qed
  qed
qed

lemma reachable_cache_shaped: "reachable lib r \<Longrightarrow> cache_shaped r"
proof (induction rule: reachable.induct)
  case (reachable_fresh r)
  then show ?case by (simp add: fresh_def cache_shaped_def)
next
  case (reachable_call r args kwargs)
  from reachable_call.IH show ?case by (rule get_geodata_cache_shaped)
qed

text \<open>
  C9: in every state that a resolver reaches from its construction, every record that
  \<^verbatim>\<open>get_geodata\<close> returns, from the cache or from the lookup, holds \<^verbatim>\<open>location\<close> and
  \<^verbatim>\<open>representative_point\<close> and none of the internal fields of its variant:
  \<^verbatim>\<open>latitude\<close>, \<^verbatim>\<open>longitude\<close>, \<^verbatim>\<open>index\<close>, and for \<^verbatim>\<open>ZIP_GeoIPDB\<close> also \<^verbatim>\<open>ip_from\<close> and
  \<^verbatim>\<open>ip_to\<close>.
\<close>

theorem result_has_synthesized_fields_only:
  assumes "reachable lib r"
    and "fst (get_geodata lib r args kwargs) = Inr (Some d)"
  shows "shaped (kind r) d"
proof -
  have inv: "cache_shaped r" using assms(1) by (rule reachable_cache_shaped)
  show ?thesis
  proof (cases "get_result_from_cache r (cache_key args kwargs)")
    case (Inl e)
    with assms(2) show ?thesis by (simp add: get_geodata_def)
  next
    case (Inr hit)
    show ?thesis
    proof (cases hit)
      case (Some val)
      with Inr assms(2) have "val = d" by (simp add: get_geodata_def)
      with Inr Some have "cache_get (results_cache r) (cache_key args kwargs) = Some d"
        by (simp add: get_result_from_cache_def split: if_splits)
      then obtain k where "(k, d) \<in> set (results_cache r)"
        using cache_get_member by blast
      with inv show ?thesis by (auto simp: cache_shaped_def)
    next
      case None
      obtain res r1 where c: "call_get_geodata lib r args kwargs = (res, r1)"
        by (cases "call_get_geodata lib r args kwargs")
      with Inr None assms(2) have "res = Inr (Some d)"
        by (auto simp: get_geodata_def split: sum.splits option.splits)
      with c show ?thesis using call_get_geodata_shaped by blast
    qed
  qed
qed

section \<open>Malformed field values\<close>






section \<open>The properties on the sample inputs\<close>


lemma get_9:
  "\<exists>d. fst (get_geodata sample_lib sample_geoip [VStr ''ip'', VStr ''0.0.0.9''] []) = Inr (Some d)"
proof -
  obtain d0 where d0: "dict_factory sample_lib (map_of ZIP_GeoIPDB_types) range_columns
        sample_row_high = Inr d0"
      "d0 ''latitude'' = Some (FFloat 2)" "d0 ''longitude'' = Some (FFloat 2)"
    using row_19 by blast
  have miss: "get_result_from_cache sample_geoip (cache_key [VStr ''ip'', VStr ''0.0.0.9''] [])
      = Inr None"
    by (simp add: get_result_from_cache_def cache_key_def keyargs_def sample_geoip_simps)
  show ?thesis
    by (simp add: get_geodata_def miss call_9 [OF d0])
qed

text \<open>C9 on the sample range table.\<close>

theorem result_has_synthesized_fields_only_witness:
  "reachable sample_lib sample_geoip \<and>
   (\<exists>d. fst (get_geodata sample_lib sample_geoip [VStr ''ip'', VStr ''0.0.0.9''] []) = Inr (Some d) \<and>
        d ''location'' \<noteq> None \<and> d ''representative_point'' \<noteq> None \<and>
        d ''latitude'' = None \<and> d ''longitude'' = None \<and> d ''index'' = None \<and>
        d ''ip_from'' = None \<and> d ''ip_to'' = None)"
proof -
  have r: "reachable sample_lib sample_geoip"
    by (rule reachable_fresh) (simp add: fresh_def sample_geoip_simps)
  from get_9 obtain d where
    d: "fst (get_geodata sample_lib sample_geoip [VStr ''ip'', VStr ''0.0.0.9''] []) = Inr (Some d)"
    by blast
  from result_has_synthesized_fields_only [OF r d]
  have "d ''location'' \<noteq> None \<and> d ''representative_point'' \<noteq> None \<and>
        d ''latitude'' = None \<and> d ''longitude'' = None \<and> d ''index'' = None \<and>
        d ''ip_from'' = None \<and> d ''ip_to'' = None"
    by (simp add: shaped_def sample_geoip_simps)
  with r d show ?thesis by blast
qed

section \<open>Lists of different lengths after a failed read\<close>









section \<open>The statement of a lookup\<close>

lemma execute_fetch_and_shape_executed:
  "execute_fetch_and_shape lib shape r q = (res, r1) \<Longrightarrow> executed r1 = executed r @ [q]"
proof -
  assume a: "execute_fetch_and_shape lib shape r q = (res, r1)"
  obtain e r0 where x: "execute r q = (e, r0)" by (cases "execute r q")
  then have r0: "executed r0 = executed r @ [q]" by (rule execute_executed)
  show ?thesis
  proof (cases e)
    case (Some err)
    with a x r0 show ?thesis by (simp add: execute_fetch_and_shape_def)
  next
    case None
    with a x have "fetch_and_shape lib shape r0 = (res, r1)"
      by (simp add: execute_fetch_and_shape_def)
    then have "executed r1 = executed r0" using fetch_and_shape_same by blast
    with r0 show ?thesis by simp
  qed
qed

lemma fetch_and_shape_not_executed:
  "executed (snd (fetch_and_shape lib shape r)) \<noteq> executed r @ [q]"
  using fetch_and_shape_same [of lib shape r "fst (fetch_and_shape lib shape r)"
      "snd (fetch_and_shape lib shape r)"]
  by simp

lemma executed_statement:
  assumes "executed (snd (execute_fetch_and_shape lib shape r q')) = executed r @ [q]"
  shows "q' = q"
  using execute_fetch_and_shape_executed [of lib shape r q'
      "fst (execute_fetch_and_shape lib shape r q')" "snd (execute_fetch_and_shape lib shape r q')"]
    assms
  by simp


lemma CountryLevel_statement:
  assumes "executed (snd (CountryLevel_get_geodata lib r column value multi_op)) = executed r @ [q]"
  shows "CountryLevel_get_geodata lib r column value multi_op =
           execute_fetch_and_shape lib CountryLevel_shape r q"
proof -
  have "(\<exists>q'. CountryLevel_get_geodata lib r column value multi_op =
             execute_fetch_and_shape lib CountryLevel_shape r q') \<or>
        CountryLevel_get_geodata lib r column value multi_op =
             fetch_and_shape lib CountryLevel_shape r"
    by (auto simp: CountryLevel_get_geodata_def execute_fetch_and_shape_def
        split: pyval.splits)
  then show ?thesis
  proof
    assume "\<exists>q'. CountryLevel_get_geodata lib r column value multi_op =
             execute_fetch_and_shape lib CountryLevel_shape r q'"
    then obtain q' where e: "CountryLevel_get_geodata lib r column value multi_op =
             execute_fetch_and_shape lib CountryLevel_shape r q'" by blast
    with assms have "q' = q" by (simp add: executed_statement)
    with e show ?thesis by simp
  next
    assume "CountryLevel_get_geodata lib r column value multi_op =
             fetch_and_shape lib CountryLevel_shape r"
    with assms show ?thesis by (simp add: fetch_and_shape_not_executed)
  qed
qed

lemma ZIPLevel_statement:
  assumes "executed (snd (ZIPLevel_get_geodata lib r column value multi_op)) = executed r @ [q]"
  shows "ZIPLevel_get_geodata lib r column value multi_op =
           execute_fetch_and_shape lib ZIPLevel_shape r q"
proof (cases "ZIPLevel_query lib r column value multi_op")
  case (Inl e)
  with assms show ?thesis by (simp add: ZIPLevel_get_geodata_def)
next
  case (Inr found)
  show ?thesis
  proof (cases found)
    case None
    with Inr assms show ?thesis by (simp add: ZIPLevel_get_geodata_def)
  next
    case (Some q')
    with Inr have e: "ZIPLevel_get_geodata lib r column value multi_op =
        execute_fetch_and_shape lib ZIPLevel_shape r q'"
      by (simp add: ZIPLevel_get_geodata_def)
    with assms have "q' = q" by (simp add: executed_statement)
    with e show ?thesis by simp
  qed
qed

lemma ZIP_GeoIPDB_statement:
  assumes "executed (snd (ZIP_GeoIPDB_get_geodata lib r column value multi_op str_ip)) =
      executed r @ [q]"
  shows "ZIP_GeoIPDB_get_geodata lib r column value multi_op str_ip =
           execute_fetch_and_shape lib ZIP_GeoIPDB_shape r q"
proof (cases "ZIP_GeoIPDB_query lib r column value multi_op str_ip")
  case (Inl e)
  with assms show ?thesis by (simp add: ZIP_GeoIPDB_get_geodata_def)
next
  case (Inr found)
  show ?thesis
  proof (cases found)
    case None
    with Inr assms show ?thesis by (simp add: ZIP_GeoIPDB_get_geodata_def)
  next
    case (Some q')
    with Inr have e: "ZIP_GeoIPDB_get_geodata lib r column value multi_op str_ip =
        execute_fetch_and_shape lib ZIP_GeoIPDB_shape r q'"
      by (simp add: ZIP_GeoIPDB_get_geodata_def)
    with assms have "q' = q" by (simp add: executed_statement)
    with e show ?thesis by simp
  qed
qed

lemma call_statement:
  assumes "executed (snd (call_get_geodata lib r args kwargs)) = executed r @ [q]"
  shows "call_get_geodata lib r args kwargs =
           execute_fetch_and_shape lib (shape_of (kind r)) r q"
proof (cases "kind r")
  case CountryLevel_GeoDB
  with assms obtain c v m where
    c: "call_get_geodata lib r args kwargs = CountryLevel_get_geodata lib r c v m"
    by (auto simp: call_get_geodata_def split: option.splits list.splits)
  with assms have "executed (snd (CountryLevel_get_geodata lib r c v m)) = executed r @ [q]"
    by simp
  from CountryLevel_statement [OF this] c CountryLevel_GeoDB show ?thesis by simp
next
  case ZIPLevel_GeoDB
  with assms obtain c v m where
    c: "call_get_geodata lib r args kwargs = ZIPLevel_get_geodata lib r c v m"
    by (auto simp: call_get_geodata_def split: option.splits list.splits)
  with assms have "executed (snd (ZIPLevel_get_geodata lib r c v m)) = executed r @ [q]"
    by simp
  from ZIPLevel_statement [OF this] c ZIPLevel_GeoDB show ?thesis by simp
next
  case ZIP_GeoIPDB
  with assms obtain c v m s where
    c: "call_get_geodata lib r args kwargs = ZIP_GeoIPDB_get_geodata lib r c v m s"
    by (auto simp: call_get_geodata_def split: option.splits list.splits)
  with assms have "executed (snd (ZIP_GeoIPDB_get_geodata lib r c v m s)) = executed r @ [q]"
    by simp
  from ZIP_GeoIPDB_statement [OF this] c ZIP_GeoIPDB show ?thesis by simp
qed


section \<open>A single match\<close>

lemma shape_of_single:
  assumes "d0 ''latitude'' = Some lat" and "d0 ''longitude'' = Some lon"
  shows "\<exists>d. shape_of k lib d0 [] = Inr d \<and>
             d ''location'' = Some (coords_text lib lat lon) \<and>
             d ''representative_point'' = Some (coords_text lib lat lon)"
proof -
  let ?loc = "coords_text lib lat lon"
  let ?d = "d0(''location'' \<mapsto> ?loc, ''representative_point'' \<mapsto> ?loc)"
  have loc: "locate lib d0 [] = Inr ?d"
    using assms by (rule locate_single)
  have lat: "del_item ?d ''latitude'' = Inr (?d(''latitude'' := None))"
    using assms(1) by (simp add: del_item_def)
  have lon: "del_item (?d(''latitude'' := None)) ''longitude'' =
      Inr (?d(''latitude'' := None, ''longitude'' := None))"
    using assms(2) by (simp add: del_item_def)
  have c: "CountryLevel_shape lib d0 [] =
      Inr (discard ''index'' (?d(''latitude'' := None, ''longitude'' := None)))"
    by (simp only: CountryLevel_shape_def loc sum.case lat lon)
  have z: "ZIPLevel_shape lib d0 [] =
      Inr ((?d(''latitude'' := None, ''longitude'' := None))(''country_name'' \<mapsto> FNone))"
    by (simp only: ZIPLevel_shape_def loc sum.case lat lon)
  have g: "ZIP_GeoIPDB_shape lib d0 [] =
      Inr (fold discard [''latitude'', ''longitude'', ''ip_from'', ''ip_to'', ''index''] ?d)"
    by (simp only: ZIP_GeoIPDB_shape_def loc sum.case)
  show ?thesis
    by (cases k) (simp_all add: c z g discard_other)
qed

text \<open>
  C8, amended: for every query that misses the cache and whose lookup executes a
  statement that matches exactly one row, when the record of that row carries its
  coordinate (\<^verbatim>\<open>latitude\<close> and \<^verbatim>\<open>longitude\<close> converted), \<^verbatim>\<open>get_geodata\<close> returns a record
  whose \<^verbatim>\<open>location\<close> is the text \<^verbatim>\<open>'{},{}'.format(latitude, longitude)\<close> of that row, and
  whose \<^verbatim>\<open>representative_point\<close> is the same text.
\<close>

theorem single_match_location:
  assumes "get_result_from_cache r (cache_key args kwargs) = Inr None"
    and "executed (snd (call_get_geodata lib r args kwargs)) = executed r @ [q]"
    and "database r q = Some (desc, [row])"
    and "dict_factory lib (types r) desc row = Inr d0"
    and "d0 ''latitude'' = Some lat" and "d0 ''longitude'' = Some lon"
  shows "\<exists>d r'. get_geodata lib r args kwargs = (Inr (Some d), r') \<and>
           d ''location'' = Some (FStr (format_field lib lat @ '','' @ format_field lib lon)) \<and>
           d ''representative_point'' =
             Some (FStr (format_field lib lat @ '','' @ format_field lib lon))"
proof -
  from shape_of_single [OF assms(5,6), of "kind r" lib] obtain d where
    s: "shape_of (kind r) lib d0 [] = Inr d"
    and l: "d ''location'' = Some (coords_text lib lat lon)"
    and p: "d ''representative_point'' = Some (coords_text lib lat lon)"
    by blast
  have "call_get_geodata lib r args kwargs =
      execute_fetch_and_shape lib (shape_of (kind r)) r q"
    using assms(2) by (rule call_statement)
  also have "\<dots> = (Inr (Some d),
      r\<lparr>description := desc, pending := [], executed := executed r @ [q]\<rparr>)"
    by (simp add: one_row [OF assms(3,4)] s)
  finally have "get_geodata lib r args kwargs =
      (Inr (Some d), add_result_to_cache
         (r\<lparr>description := desc, pending := [], executed := executed r @ [q]\<rparr>)
         (cache_key args kwargs) d)"
    using assms(1) by (simp add: get_geodata_def)
  with l p show ?thesis by (simp add: coords_text_def)
qed

lemma select_MX:
  "table_select country_columns sample_countries
     (SelectWhereEq ''countries'' ''country_code'' (VStr ''MX'')) =
     Some (country_columns, sample_countries)"
  by (simp add: country_columns_def CountryLevel_names_def sample_countries_def column_of_def)

lemma row_mexico:
  "dict_factory sample_lib (map_of CountryLevel_types) country_columns
     [SInt 0, SReal 1, SReal 2, SText ''MX'', SText ''MEXICO''] = Inr sample_mexico"
  by (simp add: dict_factory_def country_columns_def CountryLevel_names_def
      CountryLevel_types_def sample_lib_def sample_mexico_def)

lemma call_MX:
  "call_get_geodata sample_lib sample_country [VStr ''country_code'', VStr ''MX''] [] =
     execute_fetch_and_shape sample_lib CountryLevel_shape sample_country
       (SelectWhereEq ''countries'' ''country_code'' (VStr ''MX''))"
  by (simp add: call_get_geodata_kind(1) [OF _ bind_args_two(1)] sample_country_simps
      CountryLevel_get_geodata_def execute_fetch_and_shape_def)

text \<open>The amended C8 on the sample country table, query \<^verbatim>\<open>get_geodata('country_code', 'MX')\<close>.\<close>

theorem single_match_location_witness:
  "get_result_from_cache sample_country (cache_key [VStr ''country_code'', VStr ''MX''] []) =
     Inr None \<and>
   executed (snd (call_get_geodata sample_lib sample_country
                    [VStr ''country_code'', VStr ''MX''] [])) =
     executed sample_country @ [SelectWhereEq ''countries'' ''country_code'' (VStr ''MX'')] \<and>
   database sample_country (SelectWhereEq ''countries'' ''country_code'' (VStr ''MX'')) =
     Some (country_columns, [[SInt 0, SReal 1, SReal 2, SText ''MX'', SText ''MEXICO'']]) \<and>
   dict_factory sample_lib (types sample_country) country_columns
     [SInt 0, SReal 1, SReal 2, SText ''MX'', SText ''MEXICO''] = Inr sample_mexico \<and>
   sample_mexico ''latitude'' = Some (FFloat 1) \<and>
   sample_mexico ''longitude'' = Some (FFloat 2) \<and>
   (\<exists>d r'. get_geodata sample_lib sample_country [VStr ''country_code'', VStr ''MX''] [] =
             (Inr (Some d), r') \<and>
           d ''location'' = Some (FStr ''1.0,2.0'') \<and>
           d ''representative_point'' = Some (FStr ''1.0,2.0''))"
proof -
  let ?q = "SelectWhereEq ''countries'' ''country_code'' (VStr ''MX'')"
  let ?row = "[SInt 0, SReal 1, SReal 2, SText ''MX'', SText ''MEXICO'']"
  have miss: "get_result_from_cache sample_country
      (cache_key [VStr ''country_code'', VStr ''MX''] []) = Inr None"
    by (simp add: get_result_from_cache_def cache_key_def keyargs_def sample_country_simps)
  have ex: "executed (snd (call_get_geodata sample_lib sample_country
      [VStr ''country_code'', VStr ''MX''] [])) = executed sample_country @ [?q]"
    unfolding call_MX
    by (rule execute_fetch_and_shape_executed [OF surjective_pairing])
  have db: "database sample_country ?q = Some (country_columns, [?row])"
    using select_MX by (simp add: sample_country_simps sample_countries_def
        del: table_select.simps)
  have conv: "dict_factory sample_lib (types sample_country) country_columns ?row =
      Inr sample_mexico"
    by (simp only: sample_country_simps row_mexico)
  have lat: "sample_mexico ''latitude'' = Some (FFloat 1)"
    and lon: "sample_mexico ''longitude'' = Some (FFloat 2)"
    by (simp_all add: sample_mexico_def)
  have f: "format_field sample_lib (FFloat 1) @ '','' @ format_field sample_lib (FFloat 2) =
      ''1.0,2.0''"
    by (simp add: sample_lib_def)
  from single_match_location [OF miss ex db conv lat lon]
  have "\<exists>d r'. get_geodata sample_lib sample_country [VStr ''country_code'', VStr ''MX''] [] =
             (Inr (Some d), r') \<and>
           d ''location'' = Some (FStr ''1.0,2.0'') \<and>
           d ''representative_point'' = Some (FStr ''1.0,2.0'')"
    by (simp only: f)
  with miss ex db conv lat lon show ?thesis by blast
qed


section \<open>A row without its coordinate\<close>

lemma locate_without_coordinate:
  "d0 ''latitude'' = None \<or> d0 ''longitude'' = None \<Longrightarrow> locate lib d0 rest = Inl KeyError"
  by (auto simp: locate_def split: option.splits)

lemma shape_of_without_coordinate:
  "d0 ''latitude'' = None \<or> d0 ''longitude'' = None \<Longrightarrow> shape_of k lib d0 rest = Inl KeyError"
  by (cases k)
     (simp_all add: CountryLevel_shape_def ZIPLevel_shape_def ZIP_GeoIPDB_shape_def
        locate_without_coordinate)





lemma sample_geoip_nowhere_simps:
  "kind sample_geoip_nowhere = ZIP_GeoIPDB" "name sample_geoip_nowhere = ''geoip''"
  "results_cache sample_geoip_nowhere = []" "pending sample_geoip_nowhere = []"
  "executed sample_geoip_nowhere = []" "description sample_geoip_nowhere = []"
  "types sample_geoip_nowhere = map_of ZIP_GeoIPDB_types"
  "database sample_geoip_nowhere = table_select range_columns [sample_row_nowhere]"
  by (simp_all add: sample_geoip_nowhere_def)

lemma select_nowhere:
  "table_select range_columns [sample_row_nowhere]
     (SelectWhereEq ''geoip'' ''zip_code'' (VStr ''1000'')) =
     Some (range_columns, [sample_row_nowhere])"
  by (simp add: range_columns_def ZIP_GeoIPDB_names_def sample_row_nowhere_def column_of_def)

lemma row_nowhere:
  "\<exists>d. dict_factory sample_lib (map_of ZIP_GeoIPDB_types) range_columns sample_row_nowhere = Inr d
     \<and> d ''longitude'' = None"
  by (simp add: dict_factory_def sample_row_nowhere_def range_columns_def ZIP_GeoIPDB_names_def
      ZIP_GeoIPDB_types_def sample_lib_def)

text \<open>
  C8, as stated, fails. The query \<^verbatim>\<open>get_geodata('zip_code', '1000')\<close> matches exactly one
  row of the range table, whose longitude is NULL. No record is returned, with or
  without a \<^verbatim>\<open>representative_point\<close>: the lookup raises KeyError.
\<close>

theorem single_match_without_coordinate:
  "get_result_from_cache sample_geoip_nowhere
     (cache_key [VStr ''zip_code'', VStr ''1000''] []) = Inr None \<and>
   database sample_geoip_nowhere (SelectWhereEq ''geoip'' ''zip_code'' (VStr ''1000'')) =
     Some (range_columns, [sample_row_nowhere]) \<and>
   get_geodata sample_lib sample_geoip_nowhere [VStr ''zip_code'', VStr ''1000''] [] =
     (Inl KeyError, sample_geoip_nowhere\<lparr>description := range_columns, pending := [],
        executed := [SelectWhereEq ''geoip'' ''zip_code'' (VStr ''1000'')]\<rparr>)"
proof -
  let ?q = "SelectWhereEq ''geoip'' ''zip_code'' (VStr ''1000'')"
  obtain d0 where d0: "dict_factory sample_lib (map_of ZIP_GeoIPDB_types) range_columns
        sample_row_nowhere = Inr d0" "d0 ''longitude'' = None"
    using row_nowhere by blast
  have miss: "get_result_from_cache sample_geoip_nowhere
      (cache_key [VStr ''zip_code'', VStr ''1000''] []) = Inr None"
    by (simp add: get_result_from_cache_def cache_key_def keyargs_def sample_geoip_nowhere_simps)
  have db: "database sample_geoip_nowhere ?q = Some (range_columns, [sample_row_nowhere])"
    by (simp only: sample_geoip_nowhere_simps select_nowhere)
  have ty: "dict_factory sample_lib (types sample_geoip_nowhere) range_columns
      sample_row_nowhere = Inr d0"
    by (simp only: sample_geoip_nowhere_simps d0)
  have sh: "ZIP_GeoIPDB_shape sample_lib d0 [] = Inl KeyError"
    using shape_of_without_coordinate [of d0 ZIP_GeoIPDB sample_lib "[]"] d0(2) by simp
  have "call_get_geodata sample_lib sample_geoip_nowhere [VStr ''zip_code'', VStr ''1000''] [] =
      execute_fetch_and_shape sample_lib ZIP_GeoIPDB_shape sample_geoip_nowhere ?q"
    by (simp add: call_get_geodata_kind(3) [OF _ bind_args_two(3)] sample_geoip_nowhere_simps
        ZIP_GeoIPDB_get_geodata_def ZIP_GeoIPDB_query_def)
  also have "\<dots> = (Inl KeyError, sample_geoip_nowhere\<lparr>description := range_columns,
      pending := [], executed := [?q]\<rparr>)"
    by (simp add: one_row [OF db ty] sh sample_geoip_nowhere_simps)
  finally have "get_geodata sample_lib sample_geoip_nowhere
      [VStr ''zip_code'', VStr ''1000''] [] =
      (Inl KeyError, sample_geoip_nowhere\<lparr>description := range_columns,
         pending := [], executed := [?q]\<rparr>)"
    using miss by (simp add: get_geodata_def)
  with miss db show ?thesis by simp
qed

end
